theory Spec2Isabelle
  imports Complex_Main
begin

section \<open>Python numerics\<close>

text \<open>
  The gutter calculator (\<^verbatim>\<open>backend/services/gutter_calculator.py\<close>) and the roof
  classifier (\<^verbatim>\<open>backend/services/roof_classifier.py\<close>) compute on Python floats and
  ints. In the gutter calculator floats are modelled as exact reals: every comparison,
  branch and formula of the source is kept, rounding error of the binary representation
  is not. The confidence arithmetic of the roof classifier is modelled in double
  precision (see \<open>fl\<close> below), because its results turn on ties between sums of
  decimal literals. Python ints are
  \<^typ>\<open>int\<close>. \<^verbatim>\<open>math.ceil\<close> is the ceiling, \<^verbatim>\<open>int(x)\<close> truncates towards zero,
  \<^verbatim>\<open>round\<close> rounds to the nearest value with ties going to the even neighbour.
  \<^verbatim>\<open>math.cos\<close>, \<^verbatim>\<open>math.sqrt\<close> and \<^verbatim>\<open>math.radians\<close> are the real functions; the
  real cosine of a pitch of 90 degrees is exactly 0, so a division by it raises in the
  model, where the float cosine is only close to 0. No statement below is about such a
  pitch.
\<close>

definition py_int :: "real \<Rightarrow> int" where
  "py_int x = (if 0 \<le> x then \<lfloor>x\<rfloor> else \<lceil>x\<rceil>)"

definition py_round :: "real \<Rightarrow> int" where
  "py_round x =
     (let f = \<lfloor>x\<rfloor>; d = x - of_int f
      in if d < 1 / 2 then f
         else if 1 / 2 < d then f + 1
         else if even f then f else f + 1)"

definition py_round_ndigits :: "real \<Rightarrow> nat \<Rightarrow> real" where
  "py_round_ndigits x n = of_int (py_round (x * 10 ^ n)) / 10 ^ n"

definition radians :: "real \<Rightarrow> real" where
  "radians d = d * pi / 180"

datatype py_error = ValueError | ZeroDivisionError | UnboundLocalError

subsection \<open>Double precision\<close>

text \<open>
  A double is a real with a 53-bit significand. \<open>fl x\<close> is the double nearest to \<open>x\<close>,
  ties going to the even significand: with \<open>2 ^ e \<le> |x| < 2 ^ (e + 1)\<close> the spacing of
  the doubles around \<open>x\<close> is \<open>2 ^ (e - 52)\<close>, and \<open>x\<close> is rounded to a multiple of it.
  The exponent range is not bounded (no overflow, no subnormal numbers), which is exact
  for magnitudes between \<open>2 ^ -1022\<close> and \<open>2 ^ 1024\<close>. Each arithmetic operation of
  Python on floats is the real operation followed by \<open>fl\<close>; comparisons, \<^verbatim>\<open>min\<close> and
  \<^verbatim>\<open>max\<close> are exact.
\<close>

definition fl :: "real \<Rightarrow> real" where
  "fl x = (if x = 0 then 0
           else let ulp = 2 powr of_int (\<lfloor>log 2 \<bar>x\<bar>\<rfloor> - 52)
                in of_int (py_round (x / ulp)) * ulp)"

definition fadd :: "real \<Rightarrow> real \<Rightarrow> real" where
  "fadd a b = fl (a + b)"

definition fsub :: "real \<Rightarrow> real \<Rightarrow> real" where
  "fsub a b = fl (a - b)"

definition fmul :: "real \<Rightarrow> real \<Rightarrow> real" where
  "fmul a b = fl (a * b)"

definition fdiv :: "real \<Rightarrow> real \<Rightarrow> real" where
  "fdiv a b = fl (a / b)"

text \<open>
  The float literals of the classifier: each is the double nearest to the decimal
  written in the source.
\<close>

definition lit_0_05 :: real where "lit_0_05 = fl 0.05"
definition lit_0_1 :: real where "lit_0_1 = fl 0.1"
definition lit_0_15 :: real where "lit_0_15 = fl 0.15"
definition lit_0_2 :: real where "lit_0_2 = fl 0.2"
definition lit_0_4 :: real where "lit_0_4 = fl 0.4"
definition lit_0_7 :: real where "lit_0_7 = fl 0.7"
definition lit_0_8 :: real where "lit_0_8 = fl 0.8"
definition lit_0_9 :: real where "lit_0_9 = fl 0.9"
definition lit_0_95 :: real where "lit_0_95 = fl 0.95"

section \<open>Data\<close>

text \<open>
  A raw roof segment is a dictionary of the building-insights response. A key read with
  \<^verbatim>\<open>.get(key, default)\<close> is an optional field; \<^verbatim>\<open>stats.groundAreaMeters2\<close> is
  flattened into one optional field; the bounding box keeps its two optional corners
  (\<^verbatim>\<open>'sw' in bbox and 'ne' in bbox\<close>), each a latitude/longitude pair.
\<close>

record latlng =
  latitude :: real
  longitude :: real

record raw_segment =
  pitchDegrees :: "real option"
  azimuthDegrees :: "real option"
  groundAreaMeters2 :: "real option"
  bbox_sw :: "latlng option"
  bbox_ne :: "latlng option"

section \<open>Roof type validation\<close>

text \<open>
  \<^verbatim>\<open>building_data['raw_api_response']\<close>: the segment list
  (\<^verbatim>\<open>solarPotential.roofSegmentStats\<close>, \<open>[]\<close> when absent), the whole-roof ground
  area (\<^verbatim>\<open>solarPotential.wholeRoofStats.groundAreaMeters2\<close>, \<open>None\<close> when the
  dictionary or the key is absent) and the centre (\<open>None\<close> when absent or empty, which
  Python treats as false; its latitude is read with a default).
\<close>

record center_dict =
  center_latitude :: "real option"

record building_data =
  roofSegmentStats :: "raw_segment list"
  wholeRoofGroundAreaMeters2 :: "real option"
  center :: "center_dict option"

definition get_or :: "'a option \<Rightarrow> 'a \<Rightarrow> 'a" where
  "get_or v d = (case v of None \<Rightarrow> d | Some x \<Rightarrow> x)"

text \<open>
  \<^verbatim>\<open>_validate_roof_type\<close>. \<^verbatim>\<open>len(set(round(az, 5) for az in azimuths))\<close> is the
  length of the rounded list without duplicates. A branch of the \<^verbatim>\<open>elif\<close> chain whose
  inner test fails falls out of the chain to the final \<^verbatim>\<open>return roof_type\<close>.
\<close>

definition validate_roof_type ::
    "string \<Rightarrow> raw_segment list \<Rightarrow> center_dict option \<Rightarrow> string" where
  "validate_roof_type roof_type roof_segments building_center =
     (if roof_segments = [] then roof_type
      else
        let segment_count = length roof_segments;
            azimuths = map (\<lambda>seg. get_or (azimuthDegrees seg) 0) roof_segments;
            unique_azimuths = length (remdups (map (\<lambda>az. py_round_ndigits az 5) azimuths))
        in if building_center \<noteq> None then
             let areas = map (\<lambda>seg. get_or (groundAreaMeters2 seg) 0) roof_segments;
                 total_area = sum_list areas
             in if 0 < total_area then
                  if segment_count = 1 then
                    (if roof_type \<noteq> ''shed'' \<and> roof_type \<noteq> ''flat'' then ''shed'' else roof_type)
                  else if segment_count = 2 then
                    (if roof_type \<noteq> ''gable'' then ''gable'' else roof_type)
                  else if 4 \<le> segment_count \<and> 3 \<le> unique_azimuths then
                    (if roof_type \<notin> set [''hip'', ''mansard'', ''complex''] then ''hip''
                     else roof_type)
                  else if 4 < segment_count then
                    (if roof_type \<noteq> ''complex'' then ''complex'' else roof_type)
                  else roof_type
                else roof_type
           else roof_type)"

section \<open>Building perimeter\<close>

definition calculate_meters_per_degree :: "real \<Rightarrow> real \<times> real" where
  "calculate_meters_per_degree lat = (111320 * cos (radians lat), 111132)"

text \<open>\<^verbatim>\<open>math.sqrt\<close> raises on a negative argument, float division on a zero divisor.\<close>

definition py_sqrt :: "real \<Rightarrow> py_error + real" where
  "py_sqrt x = (if x < 0 then Inl ValueError else Inr (sqrt x))"

definition py_div :: "real \<Rightarrow> real \<Rightarrow> py_error + real" where
  "py_div x y = (if y = 0 then Inl ZeroDivisionError else Inr (x / y))"

text \<open>The latitudes and longitudes collected from the segments that have both corners.\<close>

definition all_lats_of :: "raw_segment list \<Rightarrow> real list" where
  "all_lats_of roof_segments =
     concat (map (\<lambda>segment. case (bbox_sw segment, bbox_ne segment) of
                    (Some sw, Some ne) \<Rightarrow> [latitude sw, latitude ne] | _ \<Rightarrow> []) roof_segments)"

definition all_lons_of :: "raw_segment list \<Rightarrow> real list" where
  "all_lons_of roof_segments =
     concat (map (\<lambda>segment. case (bbox_sw segment, bbox_ne segment) of
                    (Some sw, Some ne) \<Rightarrow> [longitude sw, longitude ne] | _ \<Rightarrow> []) roof_segments)"

text \<open>
  \<^verbatim>\<open>_calculate_building_perimeter\<close>, method by method. Method 1 returns the pair
  \<^verbatim>\<open>(ground_area, estimated_perimeter)\<close> from the whole-roof statistics; its square
  root is the only statement of the function that can raise, on a negative area, and
  the function is not inside a \<^verbatim>\<open>try\<close> of its own.
\<close>

definition whole_roof_method :: "real option \<Rightarrow> py_error + (real \<times> real)" where
  "whole_roof_method whole_roof_stats =
     (case whole_roof_stats of
        None \<Rightarrow> Inr (0, 0)
      | Some a \<Rightarrow>
          if a = 0 then Inr (0, 0)
          else (case py_sqrt a of Inl e \<Rightarrow> Inl e | Inr r \<Rightarrow> Inr (a, 4 * r)))"

text \<open>
  Method 2 takes the estimate so far and returns the estimate after the bounding boxes
  have been looked at.
\<close>

definition bounding_box_method :: "raw_segment list \<Rightarrow> real \<Rightarrow> real \<Rightarrow> real \<Rightarrow> real" where
  "bounding_box_method roof_segments meters_per_deg_lon meters_per_deg_lat estimated_perimeter =
     (case (all_lats_of roof_segments, all_lons_of roof_segments) of
        (la # las, lo # los) \<Rightarrow>
          let min_lat = fold min las la; max_lat = fold max las la;
              min_lon = fold min los lo; max_lon = fold max los lo;
              lat_span = (max_lat - min_lat) * meters_per_deg_lat;
              lon_span = (max_lon - min_lon) * meters_per_deg_lon;
              bbox_perimeter = 2 * (lat_span + lon_span)
          in if 0 < bbox_perimeter \<and>
                (estimated_perimeter = 0 \<or>
                 abs (bbox_perimeter - estimated_perimeter) / estimated_perimeter < 0.3)
             then bbox_perimeter else estimated_perimeter
      | _ \<Rightarrow> estimated_perimeter)"

text \<open>
  \<open>perimeter_methods\<close> is the body up to and including method 3: it returns the pair
  \<^verbatim>\<open>(estimated_perimeter, ground_area)\<close> before the final validation.
\<close>

definition perimeter_methods ::
    "raw_segment list \<Rightarrow> center_dict option \<Rightarrow> real option \<Rightarrow> py_error + (real \<times> real)" where
  "perimeter_methods roof_segments building_center whole_roof_stats =
     (let lat = (case building_center of None \<Rightarrow> 40 | Some c \<Rightarrow> get_or (center_latitude c) 40);
          (meters_per_deg_lon, meters_per_deg_lat) = calculate_meters_per_degree lat
      in case whole_roof_method whole_roof_stats of
           Inl e \<Rightarrow> Inl e
         | Inr (ground_area, estimated_perimeter) \<Rightarrow>
             let estimated_perimeter =
                   bounding_box_method roof_segments meters_per_deg_lon meters_per_deg_lat
                     estimated_perimeter;
                 estimated_perimeter =
                   (if estimated_perimeter = 0 \<and> 0 < ground_area then 4 * sqrt ground_area
                    else estimated_perimeter)
             in Inr (estimated_perimeter, ground_area))"

text \<open>The final validation, applied only to a positive estimate.\<close>

definition calculate_building_perimeter ::
    "raw_segment list \<Rightarrow> center_dict option \<Rightarrow> real option \<Rightarrow> py_error + (real \<times> real)" where
  "calculate_building_perimeter roof_segments building_center whole_roof_stats =
     (case perimeter_methods roof_segments building_center whole_roof_stats of
        Inl e \<Rightarrow> Inl e
      | Inr (estimated_perimeter, ground_area) \<Rightarrow>
          Inr (if 0 < estimated_perimeter then
                 if estimated_perimeter < 20 then 20
                 else if 200 < estimated_perimeter then 200
                 else estimated_perimeter
               else estimated_perimeter,
               ground_area))"

section \<open>Segment processing\<close>

text \<open>\<^verbatim>\<open>_calculate_eave_length_from_area\<close>.\<close>

definition calculate_eave_length_from_area :: "real \<Rightarrow> real \<Rightarrow> py_error + real" where
  "calculate_eave_length_from_area ground_area pitch_degrees =
     (if pitch_degrees \<le> 0 then py_sqrt ground_area
      else case py_div ground_area (cos (radians pitch_degrees)) of
             Inl e \<Rightarrow> Inl e
           | Inr q \<Rightarrow> py_sqrt q)"

text \<open>
  The body of the \<^verbatim>\<open>try\<close> inside the loop of \<^verbatim>\<open>_process_roof_segments_improved\<close>,
  method by method. Method 1 is the bounding-box eave with its pitch correction, whose
  division raises when the cosine is zero.
\<close>

definition bounding_box_eave :: "raw_segment \<Rightarrow> real \<Rightarrow> real \<Rightarrow> real \<Rightarrow> py_error + real" where
  "bounding_box_eave segment pitch_degrees meters_per_deg_lon meters_per_deg_lat =
     (case (bbox_sw segment, bbox_ne segment) of
        (Some sw, Some ne) \<Rightarrow>
          let lat_span = abs (latitude ne - latitude sw) * meters_per_deg_lat;
              lon_span = abs (longitude ne - longitude sw) * meters_per_deg_lon;
              eave_m = max lat_span lon_span
          in if 0 < pitch_degrees then py_div eave_m (cos (radians pitch_degrees))
             else Inr eave_m
      | _ \<Rightarrow> Inr 0)"

text \<open>Method 3 takes the eave length so far and returns it after the perimeter fallback.\<close>

definition perimeter_share_eave :: "raw_segment list \<Rightarrow> real \<Rightarrow> real \<Rightarrow> real \<Rightarrow> real" where
  "perimeter_share_eave roof_segments perimeter_m ground_area eave_m =
     (if eave_m = 0 \<and> 0 < perimeter_m then
        let total_segment_area =
              sum_list (map (\<lambda>seg. get_or (groundAreaMeters2 seg) 0) roof_segments)
        in if 0 < total_segment_area
           then perimeter_m * (ground_area / total_segment_area) * 0.25
           else eave_m
      else eave_m)"

text \<open>The dictionary appended by \<^verbatim>\<open>_process_roof_segments_improved\<close>.\<close>

record processed_segment =
  area_m2 :: real
  pitch_degrees :: real
  azimuth :: real
  eave_m :: real
  depth_m :: real
  pitch :: real
  bbox :: "latlng option \<times> latlng option"

text \<open>
  The local variable \<^verbatim>\<open>depth_m\<close> is assigned only under \<^verbatim>\<open>if eave_m > 0\<close> and is
  not reset between iterations, so it is threaded through the loop as \<open>depth_var\<close>:
  \<open>None\<close> while unbound (reading it raises), otherwise the value of the last
  assignment.
\<close>

definition process_segment_body ::
    "raw_segment list \<Rightarrow> real \<Rightarrow> real \<Rightarrow> real \<Rightarrow> real option \<Rightarrow> raw_segment
      \<Rightarrow> py_error + (processed_segment \<times> real option)" where
  "process_segment_body roof_segments perimeter_m meters_per_deg_lon meters_per_deg_lat
       depth_var segment =
     (let pitch_degrees = get_or (pitchDegrees segment) 0;
          azimuth = get_or (azimuthDegrees segment) 0;
          ground_area = get_or (groundAreaMeters2 segment) 0;
          bbox = (bbox_sw segment, bbox_ne segment)
      in case bounding_box_eave segment pitch_degrees meters_per_deg_lon meters_per_deg_lat of
           Inl e \<Rightarrow> Inl e
         | Inr eave1 \<Rightarrow>
             (case (if eave1 = 0 \<and> 0 < ground_area
                    then calculate_eave_length_from_area ground_area pitch_degrees
                    else Inr eave1) of
                Inl e \<Rightarrow> Inl e
              | Inr eave2 \<Rightarrow>
                  let eave_m = perimeter_share_eave roof_segments perimeter_m ground_area eave2;
                      depth_var = (if 0 < eave_m then Some (ground_area / eave_m) else depth_var)
                  in (case depth_var of
                        None \<Rightarrow> Inl UnboundLocalError
                      | Some d \<Rightarrow>
                          Inr (\<lparr>area_m2 = ground_area, pitch_degrees = pitch_degrees,
                                azimuth = azimuth, eave_m = eave_m, depth_m = d,
                                pitch = pitch_degrees, bbox = bbox\<rparr>, depth_var))))"

text \<open>
  The loop: an exception in the body is caught, logged, and the loop continues with the
  next segment; otherwise the record is appended.
\<close>

fun process_loop ::
    "raw_segment list \<Rightarrow> real \<Rightarrow> real \<Rightarrow> real \<Rightarrow> real option \<Rightarrow> processed_segment list
      \<Rightarrow> raw_segment list \<Rightarrow> processed_segment list" where
  "process_loop roof_segments perimeter_m mlon mlat depth_var processed_segments [] =
     processed_segments"
| "process_loop roof_segments perimeter_m mlon mlat depth_var processed_segments (segment # rest) =
     (case process_segment_body roof_segments perimeter_m mlon mlat depth_var segment of
        Inl e \<Rightarrow> process_loop roof_segments perimeter_m mlon mlat depth_var processed_segments rest
      | Inr (p, depth_var') \<Rightarrow>
          process_loop roof_segments perimeter_m mlon mlat depth_var' (processed_segments @ [p]) rest)"

definition process_roof_segments_improved ::
    "raw_segment list \<Rightarrow> center_dict option \<Rightarrow> real \<Rightarrow> processed_segment list" where
  "process_roof_segments_improved roof_segments building_center perimeter_m =
     (let lat = (case building_center of None \<Rightarrow> 40 | Some c \<Rightarrow> get_or (center_latitude c) 40);
          (meters_per_deg_lon, meters_per_deg_lat) = calculate_meters_per_degree lat
      in process_loop roof_segments perimeter_m meters_per_deg_lon meters_per_deg_lat
           None [] roof_segments)"

section \<open>Eave length\<close>

text \<open>\<^verbatim>\<open>_calculate_eave_length_improved\<close>; the footprint argument is unused there.\<close>

definition calculate_eave_length_improved ::
    "string \<Rightarrow> processed_segment list \<Rightarrow> real \<Rightarrow> real \<Rightarrow> real \<times> real" where
  "calculate_eave_length_improved roof_type processed_segments perimeter_m building_footprint_m2 =
     (if processed_segments = [] then (0, 1)
      else if roof_type = ''hip'' \<and> 0 < perimeter_m then (perimeter_m * 0.5, 1.2)
      else if roof_type \<noteq> ''hip'' \<and> roof_type = ''gable'' \<and> 0 < perimeter_m
        then (perimeter_m * 0.5, 1.0)
      else
        let segment_eave_sum = sum_list (map eave_m processed_segments);
            segment_eave_sum =
              (if 0 < perimeter_m \<and> perimeter_m * 1.2 < segment_eave_sum
               then perimeter_m * 0.9 else segment_eave_sum);
            segment_count = length processed_segments;
            complexity_factor =
              (if segment_count \<le> 2 then 1.0 else if segment_count \<le> 4 then 1.2 else 1.4)
        in (segment_eave_sum, complexity_factor))"

section \<open>Downspouts\<close>

text \<open>\<^verbatim>\<open>_estimate_downspouts_improved\<close>.\<close>

definition estimate_downspouts_improved ::
    "string \<Rightarrow> real \<Rightarrow> processed_segment list \<Rightarrow> int" where
  "estimate_downspouts_improved roof_type total_eave_m processed_segments =
     (let base_downspouts = max 2 \<lceil>total_eave_m * 3.28084 / 45\<rceil>
      in if roof_type = ''flat'' then 1
         else if roof_type = ''shed'' then 2
         else if roof_type \<in> set [''gable'', ''gambrel'']
           then max 2 (py_int (of_int base_downspouts * 0.9))
         else if roof_type \<in> set [''hip'', ''mansard'']
           then max 4 (py_int (of_int base_downspouts * 1.1))
         else if roof_type = ''complex''
           then max 4 (py_int (of_int base_downspouts * 1.2))
         else base_downspouts)"

section \<open>Waste factor\<close>

text \<open>
  \<^verbatim>\<open>_calculate_dynamic_waste_factor\<close>; the dictionary \<^verbatim>\<open>type_waste\<close> is an
  association list read with a default.
\<close>

definition type_waste :: "(string \<times> real) list" where
  "type_waste =
     [(''flat'', 0.01), (''shed'', 0.015), (''gable'', 0.02), (''gambrel'', 0.025),
      (''hip'', 0.025), (''mansard'', 0.03), (''complex'', 0.035), (''unknown'', 0.02)]"

definition calculate_dynamic_waste_factor :: "string \<Rightarrow> real \<Rightarrow> nat \<Rightarrow> real" where
  "calculate_dynamic_waste_factor roof_type complexity_factor segment_count =
     (let base_waste = get_or (map_of type_waste roof_type) 0.02;
          complexity_waste = (complexity_factor - 1.0) * 0.01;
          segment_waste = max 0 ((real segment_count - 2) * 0.003);
          corner_waste =
            (if roof_type \<in> set [''hip'', ''mansard'', ''complex''] then 0.005 else 0);
          total_waste = base_waste + complexity_waste + segment_waste + corner_waste
      in min 0.06 (max 0.01 total_waste))"

section \<open>Warnings\<close>

text \<open>
  The warnings are formatted strings in the source; here each message is a constructor
  that carries the values the message prints, in the order the source appends them.
\<close>

datatype warning =
    EaveExceedsPerimeter real real
  | EaveSeemsLow real real
  | FewSegments nat string
  | RoofTypeUnknown
  | LargeRoof real
  | SmallRoof real

text \<open>\<^verbatim>\<open>_generate_warnings_improved\<close>; the whole-roof statistics are unused there.\<close>

definition generate_warnings_improved ::
    "string \<Rightarrow> int \<Rightarrow> real \<Rightarrow> processed_segment list \<Rightarrow> real option \<Rightarrow> real \<Rightarrow> warning list" where
  "generate_warnings_improved roof_type total_gutter_ft total_eave_m processed_segments
       whole_roof_stats perimeter_m =
     (if 0 < perimeter_m then
        let eave_to_perimeter_ratio = total_eave_m / perimeter_m
        in if 1.0 < eave_to_perimeter_ratio then [EaveExceedsPerimeter total_eave_m perimeter_m]
           else if eave_to_perimeter_ratio < 0.3 then [EaveSeemsLow total_eave_m perimeter_m]
           else []
      else [])
     @ (if length processed_segments < 2 \<and> roof_type \<notin> set [''flat'', ''shed'']
        then [FewSegments (length processed_segments) roof_type] else [])
     @ (if roof_type = ''unknown'' then [RoofTypeUnknown] else [])
     @ (if 100 < total_eave_m then [LargeRoof total_eave_m]
        else if total_eave_m < 10 then [SmallRoof total_eave_m]
        else [])"

section \<open>The estimate\<close>

text \<open>
  The two inline blocks of \<^verbatim>\<open>estimate_gutter_feet\<close> that claims are about are
  definitions of their own: the conversion to feet with the final overestimation guard
  (it returns the pair \<^verbatim>\<open>(total_gutter_ft, eave_length_ft)\<close>), and the estimated range.
\<close>

definition final_overestimation_guard :: "real \<Rightarrow> real \<Rightarrow> real \<Rightarrow> int \<times> real" where
  "final_overestimation_guard perimeter_m total_eave_m dynamic_waste_factor =
     (let eave_length_ft = total_eave_m * 3.28084;
          total_gutter_ft_raw = total_eave_m * 3.28084;
          total_gutter_with_waste = total_gutter_ft_raw * (1 + dynamic_waste_factor);
          total_gutter_ft = \<lceil>total_gutter_with_waste\<rceil>
      in if 0 < perimeter_m then
           let perimeter_ft = perimeter_m * 3.28084;
               max_gutter_ft = perimeter_ft * 1.3
           in if max_gutter_ft < of_int total_gutter_ft
              then (\<lceil>perimeter_ft * 0.9 * (1 + dynamic_waste_factor)\<rceil>, perimeter_ft * 0.9)
              else (total_gutter_ft, eave_length_ft)
         else (total_gutter_ft, eave_length_ft))"

record estimated_range_dict =
  range_min :: int
  range_max :: int
  range_target :: int

definition estimated_range_of :: "int \<Rightarrow> real \<Rightarrow> estimated_range_dict" where
  "estimated_range_of total_gutter_ft complexity_factor =
     (let range_percentage = 0.08 + (complexity_factor - 1.0) * 0.03
      in \<lparr>range_min = max 1 (py_int (of_int total_gutter_ft * (1 - range_percentage))),
          range_max = py_int (of_int total_gutter_ft * (1 + range_percentage)),
          range_target = total_gutter_ft\<rparr>)"

text \<open>The classification dictionary, both keys read with a default.\<close>

record roof_classification =
  rc_roof_type :: "string option"
  rc_confidence :: "real option"

record GutterEstimate =
  eave_length_ft :: real
  total_gutter_ft :: int
  waste_factor :: real
  roof_type :: string
  confidence :: real
  warnings :: "warning list"
  estimated_range :: estimated_range_dict
  downspouts_estimate :: int
  complexity_factor :: real
  perimeter_m :: real
  building_footprint_m2 :: real

text \<open>
  \<^verbatim>\<open>estimate_gutter_feet\<close>. An exception inside is re-raised as a failure of the whole
  call, so the result is an error or the estimate.
\<close>

definition estimate_gutter_feet ::
    "building_data \<Rightarrow> roof_classification \<Rightarrow> py_error + GutterEstimate" where
  "estimate_gutter_feet bd rc =
     (let roof_type = get_or (rc_roof_type rc) ''unknown'';
          confidence = get_or (rc_confidence rc) 0.0;
          roof_segments = roofSegmentStats bd;
          whole_roof_stats = wholeRoofGroundAreaMeters2 bd;
          building_center = center bd;
          validated_roof_type = validate_roof_type roof_type roof_segments building_center
      in case calculate_building_perimeter roof_segments building_center whole_roof_stats of
           Inl e \<Rightarrow> Inl e
         | Inr (perimeter, footprint) \<Rightarrow>
             let processed_segments =
                   process_roof_segments_improved roof_segments building_center perimeter;
                 (total_eave_m, complexity) =
                   calculate_eave_length_improved validated_roof_type processed_segments
                     perimeter footprint;
                 dynamic_waste_factor =
                   calculate_dynamic_waste_factor validated_roof_type complexity
                     (length processed_segments);
                 (total_ft, eave_ft) =
                   final_overestimation_guard perimeter total_eave_m dynamic_waste_factor;
                 downspouts =
                   estimate_downspouts_improved validated_roof_type total_eave_m processed_segments;
                 warns =
                   generate_warnings_improved validated_roof_type total_ft total_eave_m
                     processed_segments whole_roof_stats perimeter;
                 range = estimated_range_of total_ft complexity
             in Inr \<lparr>eave_length_ft = py_round_ndigits eave_ft 2,
                     total_gutter_ft = total_ft,
                     waste_factor = dynamic_waste_factor,
                     roof_type = validated_roof_type,
                     confidence = confidence,
                     warnings = warns,
                     estimated_range = range,
                     downspouts_estimate = downspouts,
                     complexity_factor = complexity,
                     perimeter_m = perimeter,
                     building_footprint_m2 = footprint\<rparr>)"

section \<open>Confidence fusion of the roof classifier\<close>

text \<open>\<^verbatim>\<open>_simple_segment_based_classification\<close>.\<close>

definition simple_segment_based_classification :: "int \<Rightarrow> string" where
  "simple_segment_based_classification segment_count =
     (if segment_count = 1 then ''shed''
      else if segment_count = 2 then ''gable''
      else if segment_count = 3 then ''gable''
      else if segment_count = 4 then ''hip''
      else if segment_count = 5 then ''hip''
      else if 6 \<le> segment_count then ''complex''
      else ''unknown'')"

text \<open>\<^verbatim>\<open>_calculate_simple_confidence\<close>, in double precision.\<close>

definition calculate_simple_confidence :: "int \<Rightarrow> string \<Rightarrow> string \<Rightarrow> real" where
  "calculate_simple_confidence segment_count ai_type geometry_type =
     (let base_confidence = lit_0_8;
          base_confidence =
            (if segment_count = 2 then fadd base_confidence lit_0_15
             else if segment_count = 4 then fadd base_confidence lit_0_1
             else if 2 \<le> segment_count \<and> segment_count \<le> 5 then fadd base_confidence lit_0_1
             else if 5 < segment_count then fsub base_confidence lit_0_1
             else base_confidence);
          base_confidence =
            (if ai_type = geometry_type then fadd base_confidence lit_0_1
             else if ai_type \<in> set [''gable'', ''hip''] \<and> geometry_type \<in> set [''gable'', ''hip'']
               then fadd base_confidence lit_0_05
             else if ai_type = ''unknown'' \<and> geometry_type \<noteq> ''unknown''
               then fadd base_confidence lit_0_1
             else base_confidence);
          base_confidence =
            (if segment_count = 2 \<and> ai_type = ''hip'' then fsub base_confidence lit_0_2
             else if segment_count = 4 \<and> ai_type = ''gable'' then fsub base_confidence lit_0_2
             else base_confidence)
      in max lit_0_4 (min lit_0_95 base_confidence))"

text \<open>
  \<^verbatim>\<open>_validate_roof_type_geometry\<close>, in double precision. With a segment list and a
  float confidence nothing in the \<^verbatim>\<open>try\<close> raises, so the \<^verbatim>\<open>except\<close> branch has no
  counterpart here.
\<close>

definition validate_roof_type_geometry :: "string \<Rightarrow> building_data \<Rightarrow> real \<Rightarrow> string \<times> real" where
  "validate_roof_type_geometry ai_roof_type bd ai_confidence =
     (let roof_segments = roofSegmentStats bd
      in if roof_segments = [] then (ai_roof_type, fmul ai_confidence lit_0_8)
         else
           let segment_count = int (length roof_segments);
               geometry_roof_type = simple_segment_based_classification segment_count;
               geometry_confidence =
                 calculate_simple_confidence segment_count ai_roof_type geometry_roof_type
           in if fadd ai_confidence lit_0_15 < geometry_confidence
                then (geometry_roof_type, geometry_confidence)
              else if ai_confidence < geometry_confidence
                then (geometry_roof_type, fdiv (fadd ai_confidence geometry_confidence) 2)
              else (ai_roof_type, max ai_confidence (fmul geometry_confidence lit_0_9)))"

text \<open>
  The double that Python prints as \<^verbatim>\<open>0.7000000000000001\<close>: the result of
  \<^verbatim>\<open>0.8 - 0.1\<close>, one spacing above the double nearest to 0.7.
\<close>

definition double_0_7000000000000001 :: real where
  "double_0_7000000000000001 = fl 0.7000000000000001"

section \<open>The specification's wording\<close>

text \<open>
  Two decision tables as the specification words them, to be compared with the code.
  The downspout rule of section 4.6 rounds to the nearest integer.
\<close>

definition downspouts_spec :: "string \<Rightarrow> real \<Rightarrow> int" where
  "downspouts_spec rt eave =
     (let base = max 2 \<lceil>eave * 3.28084 / 45\<rceil>
      in if rt = ''flat'' then 1
         else if rt = ''shed'' then 2
         else if rt = ''gable'' \<or> rt = ''gambrel'' then max 2 (py_round (of_int base * 0.9))
         else if rt = ''hip'' \<or> rt = ''mansard'' then max 4 (py_round (of_int base * 1.1))
         else if rt = ''complex'' then max 4 (py_round (of_int base * 1.2))
         else base)"

text \<open>
  The resolver table of section 4.4, read row by row on the segment count \<open>n\<close> and the
  number \<open>u\<close> of unique azimuths: a row forces its type unless the external guess is one
  of the row's exceptions; when no row forces a type the guess is returned.
\<close>

definition resolver_spec :: "string \<Rightarrow> nat \<Rightarrow> nat \<Rightarrow> string" where
  "resolver_spec rt n u =
     (if n = 1 \<and> rt \<noteq> ''shed'' \<and> rt \<noteq> ''flat'' then ''shed''
      else if n = 2 \<and> rt \<noteq> ''gable'' then ''gable''
      else if 4 \<le> n \<and> 3 \<le> u \<and> rt \<noteq> ''hip'' \<and> rt \<noteq> ''mansard'' \<and> rt \<noteq> ''complex''
        then ''hip''
      else if 4 < n \<and> rt \<noteq> ''complex'' then ''complex''
      else rt)"

text \<open>The number of unique azimuths of a segment list, as a cardinality.\<close>

definition unique_azimuths_of :: "raw_segment list \<Rightarrow> nat" where
  "unique_azimuths_of roof_segments =
     card ((\<lambda>seg. py_round_ndigits (get_or (azimuthDegrees seg) 0) 5) ` set roof_segments)"

section \<open>Example inputs\<close>

text \<open>
  A segment with no pitch and no bounding box, of a given azimuth and ground area: its
  eave length comes from the area method, as the square root of the area.
\<close>

abbreviation flat_segment :: "real \<Rightarrow> real \<Rightarrow> raw_segment" where
  "flat_segment az a \<equiv>
     \<lparr>pitchDegrees = None, azimuthDegrees = Some az, groundAreaMeters2 = Some a,
      bbox_sw = None, bbox_ne = None\<rparr>"

section \<open>Eave length by roof type\<close>

text \<open>
  With an empty list of processed segments the calculator returns \<open>(0, 1)\<close> before it
  looks at the roof type, so a hip roof with a positive perimeter and no segments does
  not get half the perimeter.
\<close>

theorem eave_length_hip_without_segments:
  "calculate_eave_length_improved ''hip'' [] 40 100 \<noteq> (40 * 0.5, 1.2)"
  by (simp add: calculate_eave_length_improved_def)

text \<open>
  C1, as the code has it. With an empty segment list the result is eave length 0 and
  complexity factor 1.0, for every type and perimeter. For a non-empty segment list, a
  resolved type hip or gable and a positive perimeter, the eave length is half the
  perimeter, with complexity factor 1.2 for hip and 1.0 for gable. In every other case (another type, or a perimeter that is
  not positive) the result is the sum of the segments' eave lengths, replaced by 0.9
  times the perimeter when the perimeter is positive and the sum exceeds 1.2 times the
  perimeter, with complexity factor 1.0 up to two segments, 1.2 up to four, 1.4 beyond.
\<close>

theorem eave_length_by_type:
  "(segs = [] \<longrightarrow> calculate_eave_length_improved rt segs p fp = (0, 1))
   \<and> (segs \<noteq> [] \<and> (rt = ''hip'' \<or> rt = ''gable'') \<and> 0 < p \<longrightarrow>
      calculate_eave_length_improved rt segs p fp =
        (p * 0.5, if rt = ''hip'' then 1.2 else 1.0))
   \<and> (\<not> ((rt = ''hip'' \<or> rt = ''gable'') \<and> 0 < p) \<longrightarrow>
      calculate_eave_length_improved rt segs p fp =
        (let s = sum_list (map eave_m segs)
         in (if 0 < p \<and> p * 1.2 < s then p * 0.9 else s,
             if length segs \<le> 2 then 1.0 else if length segs \<le> 4 then 1.2 else 1.4)))"
proof (intro conjI impI)
  assume "segs = []"
  then show "calculate_eave_length_improved rt segs p fp = (0, 1)"
    by (simp add: calculate_eave_length_improved_def)
next
  assume "segs \<noteq> [] \<and> (rt = ''hip'' \<or> rt = ''gable'') \<and> 0 < p"
  then show "calculate_eave_length_improved rt segs p fp =
      (p * 0.5, if rt = ''hip'' then 1.2 else 1.0)"
    by (auto simp: calculate_eave_length_improved_def)
next
  assume other: "\<not> ((rt = ''hip'' \<or> rt = ''gable'') \<and> 0 < p)"
  show "calculate_eave_length_improved rt segs p fp =
      (let s = sum_list (map eave_m segs)
       in (if 0 < p \<and> p * 1.2 < s then p * 0.9 else s,
           if length segs \<le> 2 then 1.0 else if length segs \<le> 4 then 1.2 else 1.4))"
  proof (cases "segs = []")
    case True
    then show ?thesis
      by (simp add: calculate_eave_length_improved_def)
  next
    case False
    with other show ?thesis
      by (auto simp: calculate_eave_length_improved_def Let_def)
  qed
qed

theorem eave_length_by_type_witness:
  "calculate_eave_length_improved ''hip'' [] 40 100 = (0, 1)
   \<and> calculate_eave_length_improved ''gable'' [] 40 100 = (0, 1)
   \<and> calculate_eave_length_improved ''hip''
     [\<lparr>area_m2 = 4, pitch_degrees = 0, azimuth = 0, eave_m = 10, depth_m = 2 / 5,
       pitch = 0, bbox = (None, None)\<rparr>] 40 100 = (20, 1.2)
   \<and> calculate_eave_length_improved ''gable''
     [\<lparr>area_m2 = 4, pitch_degrees = 0, azimuth = 0, eave_m = 10, depth_m = 2 / 5,
       pitch = 0, bbox = (None, None)\<rparr>] 40 100 = (20, 1.0)
   \<and> calculate_eave_length_improved ''flat''
     [\<lparr>area_m2 = 4, pitch_degrees = 0, azimuth = 0, eave_m = 10, depth_m = 2 / 5,
       pitch = 0, bbox = (None, None)\<rparr>,
      \<lparr>area_m2 = 4, pitch_degrees = 0, azimuth = 0, eave_m = 10, depth_m = 2 / 5,
       pitch = 0, bbox = (None, None)\<rparr>] 10 100 = (9, 1.0)
   \<and> calculate_eave_length_improved ''hip''
     [\<lparr>area_m2 = 4, pitch_degrees = 0, azimuth = 0, eave_m = 10, depth_m = 2 / 5,
       pitch = 0, bbox = (None, None)\<rparr>] 0 100 = (10, 1.0)"
  using
    eave_length_by_type [where rt = "''hip''" and p = 40 and fp = 100 and segs = "[]"]
    eave_length_by_type [where rt = "''gable''" and p = 40 and fp = 100 and segs = "[]"]
    eave_length_by_type [where rt = "''hip''" and p = 40 and fp = 100 and segs =
      "[\<lparr>area_m2 = 4, pitch_degrees = 0, azimuth = 0, eave_m = 10, depth_m = 2 / 5,
         pitch = 0, bbox = (None, None)\<rparr>]"]
    eave_length_by_type [where rt = "''gable''" and p = 40 and fp = 100 and segs =
      "[\<lparr>area_m2 = 4, pitch_degrees = 0, azimuth = 0, eave_m = 10, depth_m = 2 / 5,
         pitch = 0, bbox = (None, None)\<rparr>]"]
    eave_length_by_type [where rt = "''flat''" and p = 10 and fp = 100 and segs =
      "[\<lparr>area_m2 = 4, pitch_degrees = 0, azimuth = 0, eave_m = 10, depth_m = 2 / 5,
         pitch = 0, bbox = (None, None)\<rparr>,
        \<lparr>area_m2 = 4, pitch_degrees = 0, azimuth = 0, eave_m = 10, depth_m = 2 / 5,
         pitch = 0, bbox = (None, None)\<rparr>]"]
    eave_length_by_type [where rt = "''hip''" and p = 0 and fp = 100 and segs =
      "[\<lparr>area_m2 = 4, pitch_degrees = 0, azimuth = 0, eave_m = 10, depth_m = 2 / 5,
         pitch = 0, bbox = (None, None)\<rparr>]"]
  by simp

section \<open>Downspouts by roof type\<close>

text \<open>
  The code truncates with \<^verbatim>\<open>int\<close> where the specification rounds: a gable roof with
  30 m of eave has base 3, and 2.7 truncates to 2 but rounds to 3.
\<close>

theorem downspouts_round_differs:
  "estimate_downspouts_improved ''gable'' 30 [] = 2 \<and> downspouts_spec ''gable'' 30 = 3"
  by (simp add: estimate_downspouts_improved_def downspouts_spec_def py_int_def py_round_def Let_def)

text \<open>
  C7, as the code has it. With base the larger of 2 and the ceiling of the eave length in
  feet over 45, the estimate is 1 for flat, 2 for shed, the larger of 2 and the floor of
  0.9 base for gable and gambrel, the larger of 4 and the floor of 1.1 base for hip and
  mansard, the larger of 4 and the floor of 1.2 base for complex, and base for any other
  type; it is always at least 1.
\<close>

theorem downspouts_by_type:
  "estimate_downspouts_improved rt e segs =
     (let base = max 2 \<lceil>e * 3.28084 / 45\<rceil>
      in if rt = ''flat'' then 1
         else if rt = ''shed'' then 2
         else if rt = ''gable'' \<or> rt = ''gambrel'' then max 2 \<lfloor>of_int base * (0.9::real)\<rfloor>
         else if rt = ''hip'' \<or> rt = ''mansard'' then max 4 \<lfloor>of_int base * (1.1::real)\<rfloor>
         else if rt = ''complex'' then max 4 \<lfloor>of_int base * (1.2::real)\<rfloor>
         else base)
   \<and> 1 \<le> estimate_downspouts_improved rt e segs"
  by (auto simp: estimate_downspouts_improved_def Let_def py_int_def max_def)

theorem downspouts_by_type_witness:
  "estimate_downspouts_improved ''gable'' 30 [] = 2
   \<and> estimate_downspouts_improved ''hip'' 100 [] = 8
   \<and> estimate_downspouts_improved ''flat'' 100 [] = 1
   \<and> estimate_downspouts_improved ''unknown'' 100 [] = 8"
  using downspouts_by_type [of "''gable''" 30 "[]"] downspouts_by_type [of "''hip''" 100 "[]"]
    downspouts_by_type [of "''flat''" 100 "[]"] downspouts_by_type [of "''unknown''" 100 "[]"]
  by (simp add: Let_def)

section \<open>The final overestimation guard\<close>

lemma clamp_bounds: "(a::real) \<le> b \<Longrightarrow> a \<le> min b (max a x) \<and> min b (max a x) \<le> b"
  by auto

lemma waste_factor_bounds:
  "0.01 \<le> calculate_dynamic_waste_factor rt cf n \<and> calculate_dynamic_waste_factor rt cf n \<le> 0.06"
  unfolding calculate_dynamic_waste_factor_def Let_def
  by (rule clamp_bounds) simp

lemma int_le_ceiling: "of_int z \<le> x \<Longrightarrow> z \<le> \<lceil>x::real\<rceil>"
  by (simp add: le_ceiling_iff)

lemma guard_total_bound:
  assumes p: "0 < p" and w: "0 \<le> w"
  shows "fst (final_overestimation_guard p e w) \<le> \<lceil>p * 3.28084 * 1.3 * (1 + w)\<rceil>"
proof -
  let ?pft = "p * 3.28084"
  let ?prelim = "\<lceil>e * 3.28084 * (1 + w)\<rceil>"
  have pft: "0 < ?pft" using p by simp
  have grow: "?pft * 1.3 \<le> ?pft * 1.3 * (1 + w)"
  proof -
    have "0 \<le> ?pft * 1.3 * w" using pft w by simp
    then show ?thesis by (simp add: algebra_simps)
  qed
  show ?thesis
  proof (cases "?pft * 1.3 < of_int ?prelim")
    case True
    have "?pft * 0.9 * (1 + w) \<le> ?pft * 1.3 * (1 + w)"
      using pft w by (simp add: mult_right_mono)
    then have "\<lceil>?pft * 0.9 * (1 + w)\<rceil> \<le> \<lceil>?pft * 1.3 * (1 + w)\<rceil>"
      by (rule ceiling_mono)
    with True p show ?thesis
      by (simp add: final_overestimation_guard_def Let_def)
  next
    case False
    then have "of_int ?prelim \<le> ?pft * 1.3 * (1 + w)"
      using grow by linarith
    then have "?prelim \<le> \<lceil>?pft * 1.3 * (1 + w)\<rceil>"
      by (rule int_le_ceiling)
    with False p show ?thesis
      by (simp add: final_overestimation_guard_def Let_def)
  qed
qed

text \<open>
  C2. For a positive perimeter and the waste factor the calculator computes, the
  preliminary total is the ceiling of the eave length in feet times one plus the waste
  factor; when it exceeds 1.3 times the perimeter in feet, the total becomes the ceiling
  of 0.9 times the perimeter in feet times one plus the waste factor and the eave length
  in feet becomes 0.9 times the perimeter in feet; the total returned never exceeds the
  ceiling of 1.3 times the perimeter in feet times one plus the waste factor.
\<close>

theorem total_gutter_guard:
  assumes "0 < p"
  shows "let w = calculate_dynamic_waste_factor rt cf n;
             pft = p * 3.28084;
             prelim = \<lceil>e * 3.28084 * (1 + w)\<rceil>
         in final_overestimation_guard p e w =
              (if pft * 1.3 < of_int prelim then (\<lceil>pft * 0.9 * (1 + w)\<rceil>, pft * 0.9)
               else (prelim, e * 3.28084))
            \<and> fst (final_overestimation_guard p e w) \<le> \<lceil>pft * 1.3 * (1 + w)\<rceil>"
proof -
  define w where "w = calculate_dynamic_waste_factor rt cf n"
  have "0 \<le> w"
    using waste_factor_bounds [of rt cf n] by (simp add: w_def)
  with assms have bound: "fst (final_overestimation_guard p e w) \<le> \<lceil>p * 3.28084 * 1.3 * (1 + w)\<rceil>"
    by (rule guard_total_bound)
  have shape: "final_overestimation_guard p e w =
      (if p * 3.28084 * 1.3 < of_int \<lceil>e * 3.28084 * (1 + w)\<rceil>
       then (\<lceil>p * 3.28084 * 0.9 * (1 + w)\<rceil>, p * 3.28084 * 0.9)
       else (\<lceil>e * 3.28084 * (1 + w)\<rceil>, e * 3.28084))"
    using assms by (simp add: final_overestimation_guard_def Let_def)
  from shape bound show ?thesis
    unfolding Let_def w_def by blast
qed

theorem total_gutter_guard_witness:
  "final_overestimation_guard 40 100 (calculate_dynamic_waste_factor ''gable'' 1 2)
     = (121, 40 * 3.28084 * 0.9)
   \<and> final_overestimation_guard 40 20 (calculate_dynamic_waste_factor ''gable'' 1 2)
     = (67, 20 * 3.28084)"
proof -
  have pos: "(0::real) < 40" by simp
  have w: "calculate_dynamic_waste_factor ''gable'' 1 2 = 0.02"
    by (simp add: calculate_dynamic_waste_factor_def type_waste_def get_or_def Let_def)
  show ?thesis
    using total_gutter_guard [OF pos, of "''gable''" 1 2 100]
      total_gutter_guard [OF pos, of "''gable''" 1 2 20]
    by (simp add: w Let_def)
qed

section \<open>The roof type resolver\<close>

lemma round5_examples:
  "py_round_ndigits 0 5 = 0" "py_round_ndigits 90 5 = 90"
  "py_round_ndigits 180 5 = 180" "py_round_ndigits 270 5 = 270"
  by (simp_all add: py_round_ndigits_def py_round_def)

lemma unique_azimuths_code:
  "length (remdups (map (\<lambda>az. py_round_ndigits az 5)
     (map (\<lambda>seg. get_or (azimuthDegrees seg) 0) segs))) = unique_azimuths_of segs"
  by (simp add: unique_azimuths_of_def length_remdups_card_conv image_image)

lemma unique_azimuths_five: "unique_azimuths_of [flat_segment 0 4, flat_segment 90 4, flat_segment 180 4,
            flat_segment 270 4, flat_segment 0 4] = 4"
  by (simp add: unique_azimuths_code [symmetric] get_or_def round5_examples)

text \<open>
  The resolver differs from the table in two places. Without a building centre (or with
  a total segment area that is not positive) it returns the guess unchanged: two
  segments called hip stay hip. And a list of five segments with at least three unique
  azimuths whose guess is mansard takes the hip row, which leaves it unchanged; the
  complex row below it is not tried.
\<close>

theorem resolver_differs_from_table:
  "validate_roof_type ''hip'' [flat_segment 0 4, flat_segment 180 4] None
     \<noteq> resolver_spec ''hip'' (length [flat_segment 0 4, flat_segment 180 4])
         (unique_azimuths_of [flat_segment 0 4, flat_segment 180 4])
   \<and> validate_roof_type ''mansard''
       [flat_segment 0 4, flat_segment 90 4, flat_segment 180 4, flat_segment 270 4,
        flat_segment 0 4] (Some \<lparr>center_latitude = Some 40\<rparr>)
     \<noteq> resolver_spec ''mansard''
         (length [flat_segment 0 4, flat_segment 90 4, flat_segment 180 4, flat_segment 270 4,
            flat_segment 0 4])
         (unique_azimuths_of [flat_segment 0 4, flat_segment 90 4, flat_segment 180 4,
            flat_segment 270 4, flat_segment 0 4])"
proof -
  have "validate_roof_type ''hip'' [flat_segment 0 4, flat_segment 180 4] None = ''hip''"
    by (simp add: validate_roof_type_def)
  moreover have "resolver_spec ''hip'' (length [flat_segment 0 4, flat_segment 180 4])
      (unique_azimuths_of [flat_segment 0 4, flat_segment 180 4]) = ''gable''"
    by (simp add: resolver_spec_def)
  moreover have "validate_roof_type ''mansard''
       [flat_segment 0 4, flat_segment 90 4, flat_segment 180 4, flat_segment 270 4,
        flat_segment 0 4] (Some \<lparr>center_latitude = Some 40\<rparr>) = ''mansard''"
    by (simp add: validate_roof_type_def get_or_def round5_examples)
  moreover have "resolver_spec ''mansard''
         (length [flat_segment 0 4, flat_segment 90 4, flat_segment 180 4, flat_segment 270 4,
            flat_segment 0 4])
         (unique_azimuths_of [flat_segment 0 4, flat_segment 90 4, flat_segment 180 4,
            flat_segment 270 4, flat_segment 0 4]) = ''complex''"
    by (simp add: resolver_spec_def unique_azimuths_five)
  ultimately show ?thesis
    by simp
qed

text \<open>
  C3, as the code has it. For a non-empty segment list, a building centre that is
  present and a positive total segment ground area: one segment gives shed unless the
  guess is shed or flat; two segments give gable; at least four segments with at least
  three unique azimuths (after rounding to five decimal places) give hip unless the guess
  is hip, mansard or complex, which is kept; more than four segments with fewer than
  three unique azimuths give complex; otherwise the guess is returned. When the list is
  empty, the centre is absent or the total area is not positive, the guess is returned
  unchanged.
\<close>

theorem validate_roof_type_table:
  "(segs \<noteq> [] \<and> c \<noteq> None \<and> 0 < sum_list (map (\<lambda>seg. get_or (groundAreaMeters2 seg) 0) segs) \<longrightarrow>
      validate_roof_type rt segs c =
        (let n = length segs; u = unique_azimuths_of segs
         in if n = 1 then (if rt = ''shed'' \<or> rt = ''flat'' then rt else ''shed'')
            else if n = 2 then ''gable''
            else if 4 \<le> n \<and> 3 \<le> u
              then (if rt = ''hip'' \<or> rt = ''mansard'' \<or> rt = ''complex'' then rt else ''hip'')
            else if 4 < n then ''complex''
            else rt))
   \<and> (segs = [] \<or> c = None \<or> sum_list (map (\<lambda>seg. get_or (groundAreaMeters2 seg) 0) segs) \<le> 0 \<longrightarrow>
      validate_roof_type rt segs c = rt)"
proof (intro conjI impI)
  assume h: "segs \<noteq> [] \<and> c \<noteq> None \<and> 0 < sum_list (map (\<lambda>seg. get_or (groundAreaMeters2 seg) 0) segs)"
  then obtain x where c: "c = Some x"
    by auto
  from h have ne: "segs \<noteq> []" and total: "0 < sum_list (map (\<lambda>seg. get_or (groundAreaMeters2 seg) 0) segs)"
    by simp_all
  show "validate_roof_type rt segs c =
      (let n = length segs; u = unique_azimuths_of segs
       in if n = 1 then (if rt = ''shed'' \<or> rt = ''flat'' then rt else ''shed'')
          else if n = 2 then ''gable''
          else if 4 \<le> n \<and> 3 \<le> u
            then (if rt = ''hip'' \<or> rt = ''mansard'' \<or> rt = ''complex'' then rt else ''hip'')
          else if 4 < n then ''complex''
          else rt)"
    unfolding validate_roof_type_def Let_def unique_azimuths_code
    by (simp add: ne total c)
next
  assume h: "segs = [] \<or> c = None \<or> sum_list (map (\<lambda>seg. get_or (groundAreaMeters2 seg) 0) segs) \<le> 0"
  show "validate_roof_type rt segs c = rt"
  proof (cases "segs = [] \<or> c = None")
    case True
    then show ?thesis
      unfolding validate_roof_type_def Let_def by auto
  next
    case False
    with h have "\<not> 0 < sum_list (map (\<lambda>seg. get_or (groundAreaMeters2 seg) 0) segs)"
      by auto
    then show ?thesis
      unfolding validate_roof_type_def Let_def by simp
  qed
qed

theorem validate_roof_type_table_witness:
  "validate_roof_type ''hip'' [flat_segment 0 4, flat_segment 180 4]
     (Some \<lparr>center_latitude = Some 40\<rparr>) = ''gable''
   \<and> validate_roof_type ''hip'' [flat_segment 0 4, flat_segment 180 4] None = ''hip''"
  using
    validate_roof_type_table [of "[flat_segment 0 4, flat_segment 180 4]"
      "Some \<lparr>center_latitude = Some 40\<rparr>" "''hip''"]
    validate_roof_type_table [of "[flat_segment 0 4, flat_segment 180 4]" None "''hip''"]
  by (simp add: get_or_def)

section \<open>The perimeter estimator\<close>

lemma whole_roof_method_Inr:
  assumes "whole_roof_method w = Inr (ga, ep)"
  shows "0 \<le> ga \<and> 0 \<le> ep \<and> (0 < ga \<longrightarrow> 0 < ep)"
  using assms
  by (auto simp: whole_roof_method_def py_sqrt_def split: option.splits if_splits)

lemma whole_roof_method_Inl:
  "(\<exists>e. whole_roof_method w = Inl e) \<longleftrightarrow> (\<exists>a. w = Some a \<and> a < 0)"
  by (auto simp: whole_roof_method_def py_sqrt_def split: option.splits if_splits)

lemma bounding_box_method_nonneg:
  assumes "0 \<le> ep"
  shows "0 \<le> bounding_box_method segs mlon mlat ep"
  using assms
  by (simp add: bounding_box_method_def Let_def split: list.splits prod.splits)

lemma perimeter_methods_nonneg:
  assumes "perimeter_methods segs c w = Inr (r, a)"
  shows "0 \<le> r"
proof -
  obtain mlon mlat where m: "calculate_meters_per_degree
      (case c of None \<Rightarrow> 40 | Some c \<Rightarrow> get_or (center_latitude c) 40) = (mlon, mlat)"
    by (cases "calculate_meters_per_degree
      (case c of None \<Rightarrow> 40 | Some c \<Rightarrow> get_or (center_latitude c) 40)")
  from assms obtain ga ep where w: "whole_roof_method w = Inr (ga, ep)"
    by (auto simp: perimeter_methods_def Let_def m split: sum.splits)
  then have ep: "0 \<le> ep"
    using whole_roof_method_Inr by blast
  then have bb: "0 \<le> bounding_box_method segs mlon mlat ep"
    by (rule bounding_box_method_nonneg)
  from assms have "r = (if bounding_box_method segs mlon mlat ep = 0 \<and> 0 < ga
      then 4 * sqrt ga else bounding_box_method segs mlon mlat ep)"
    by (auto simp: perimeter_methods_def Let_def m w)
  with bb show ?thesis
    by simp
qed

lemma perimeter_returns:
  "(\<exists>p a. calculate_building_perimeter segs c w = Inr (p, a)) \<longleftrightarrow> \<not> (\<exists>a. w = Some a \<and> a < 0)"
proof -
  obtain mlon mlat where m: "calculate_meters_per_degree
      (case c of None \<Rightarrow> 40 | Some c \<Rightarrow> get_or (center_latitude c) 40) = (mlon, mlat)"
    by (cases "calculate_meters_per_degree
      (case c of None \<Rightarrow> 40 | Some c \<Rightarrow> get_or (center_latitude c) 40)")
  show ?thesis
  proof (cases "whole_roof_method w")
    case (Inl e)
    then have "\<exists>a. w = Some a \<and> a < 0"
      using whole_roof_method_Inl [of w] by blast
    moreover from Inl have "calculate_building_perimeter segs c w = Inl e"
      by (simp add: calculate_building_perimeter_def perimeter_methods_def Let_def m)
    ultimately show ?thesis by simp
  next
    case (Inr pr)
    then have "\<not> (\<exists>a. w = Some a \<and> a < 0)"
      using whole_roof_method_Inl [of w] by auto
    moreover from Inr have "\<exists>p a. calculate_building_perimeter segs c w = Inr (p, a)"
      by (cases pr) (simp add: calculate_building_perimeter_def perimeter_methods_def Let_def m)
    ultimately show ?thesis by simp
  qed
qed

text \<open>
  With no segments and no whole-roof area no method gives an estimate: the perimeter
  returned is 0, which the final validation leaves alone.
\<close>

theorem perimeter_zero_without_data:
  "(case calculate_building_perimeter [] None None of
      Inl e \<Rightarrow> False
    | Inr (p, a) \<Rightarrow> p = 0 \<and> \<not> (20 \<le> p \<and> p \<le> 200))"
  by (simp add: calculate_building_perimeter_def perimeter_methods_def whole_roof_method_def
      bounding_box_method_def all_lats_of_def all_lons_of_def calculate_meters_per_degree_def)

text \<open>
  C4, as the code has it. Whenever the estimator returns, the perimeter is the estimate
  of the three methods, which is never negative, after the final validation: an estimate
  of 0 stays 0, a positive estimate below 20 becomes 20, above 200 becomes 200, and
  otherwise is unchanged; so the perimeter returned is 0 or lies within 20 and 200.
\<close>

theorem perimeter_clamped:
  assumes "calculate_building_perimeter segs c w = Inr (p, a)"
  shows "\<exists>r. perimeter_methods segs c w = Inr (r, a) \<and> 0 \<le> r
           \<and> p = (if r = 0 then 0 else if r < 20 then 20 else if 200 < r then 200 else r)
           \<and> (r = 0 \<and> p = 0 \<or> 0 < r \<and> 20 \<le> p \<and> p \<le> 200)"
proof -
  from assms obtain r where r: "perimeter_methods segs c w = Inr (r, a)"
    and p: "p = (if 0 < r then if r < 20 then 20 else if 200 < r then 200 else r else r)"
    by (auto simp: calculate_building_perimeter_def split: sum.splits)
  from r have "0 \<le> r"
    by (rule perimeter_methods_nonneg)
  with r p show ?thesis
    by auto
qed

lemma sqrt_100: "sqrt 100 = 10"
  by (rule real_sqrt_unique) simp_all

lemma sqrt_10000: "sqrt 10000 = 100"
  by (rule real_sqrt_unique) simp_all

theorem perimeter_clamped_witness:
  "calculate_building_perimeter [] None (Some 100) = Inr (40, 100)
   \<and> calculate_building_perimeter [] None (Some 4) = Inr (20, 4)
   \<and> calculate_building_perimeter [] None (Some 10000) = Inr (200, 10000)"
proof -
  have a: "calculate_building_perimeter [] None (Some 100) = Inr (40, 100)"
    by (simp add: calculate_building_perimeter_def perimeter_methods_def whole_roof_method_def
      bounding_box_method_def all_lats_of_def all_lons_of_def calculate_meters_per_degree_def
      py_sqrt_def sqrt_100)
  have b: "calculate_building_perimeter [] None (Some 4) = Inr (20, 4)"
    by (simp add: calculate_building_perimeter_def perimeter_methods_def whole_roof_method_def
      bounding_box_method_def all_lats_of_def all_lons_of_def calculate_meters_per_degree_def
      py_sqrt_def)
  have c: "calculate_building_perimeter [] None (Some 10000) = Inr (200, 10000)"
    by (simp add: calculate_building_perimeter_def perimeter_methods_def whole_roof_method_def
      bounding_box_method_def all_lats_of_def all_lons_of_def calculate_meters_per_degree_def
      py_sqrt_def sqrt_10000)
  from perimeter_clamped [OF a] perimeter_clamped [OF b] perimeter_clamped [OF c] a b c
  show ?thesis by simp
qed

section \<open>Confidence fusion\<close>

text \<open>
  Rounding to a double, evaluated: for \<open>x\<close> between \<open>1 / 2 ^ k\<close> and \<open>2 / 2 ^ k\<close> the
  doubles are the multiples of \<open>1 / 2 ^ (52 + k)\<close>.
\<close>

lemma fl_binade_down:
  assumes lo: "1 / 2 ^ k \<le> x" and hi: "x < 2 / 2 ^ k"
  shows "fl x = of_int (py_round (x * 2 ^ (52 + k))) / 2 ^ (52 + k)"
proof -
  have "(0::real) < 1 / 2 ^ k"
    by simp
  with lo have pos: "0 < x"
    by linarith
  have p2: "(2::real) powr (1 - real k) = 2 / 2 ^ k"
    by (simp add: powr_diff powr_realpow)
  have "\<lfloor>log 2 x\<rfloor> = - int k"
    using pos lo hi by (simp add: floor_log_eq_powr_iff powr_minus_divide powr_realpow p2)
  then have e: "\<lfloor>log 2 \<bar>x\<bar>\<rfloor> - 52 = - int (52 + k)"
    using pos by simp
  have u: "(2::real) powr of_int (- int (52 + k)) = 1 / 2 ^ (52 + k)"
    by (simp only: of_int_minus of_int_of_nat_eq powr_minus_divide powr_realpow [OF zero_less_numeral])
  show ?thesis
    using pos unfolding fl_def Let_def e u by simp
qed

lemma fadd_value: "a = qa \<Longrightarrow> b = qb \<Longrightarrow> fl (qa + qb) = r \<Longrightarrow> fadd a b = r"
  by (simp add: fadd_def)

lemma fsub_value: "a = qa \<Longrightarrow> b = qb \<Longrightarrow> fl (qa - qb) = r \<Longrightarrow> fsub a b = r"
  by (simp add: fsub_def)

lemma fmul_value: "a = qa \<Longrightarrow> b = qb \<Longrightarrow> fl (qa * qb) = r \<Longrightarrow> fmul a b = r"
  by (simp add: fmul_def)

lemma fdiv_value: "a = qa \<Longrightarrow> b = qb \<Longrightarrow> fl (qa / qb) = r \<Longrightarrow> fdiv a b = r"
  by (simp add: fdiv_def)

text \<open>The literals and the sums of \<^verbatim>\<open>_calculate_simple_confidence\<close> as exact fractions.\<close>

lemma lit_0_05_value: "lit_0_05 = 3602879701896397 / 72057594037927936"
  unfolding lit_0_05_def
  by (subst fl_binade_down [where k = 5]) (simp_all add: py_round_def)

lemma lit_0_1_value: "lit_0_1 = 3602879701896397 / 36028797018963968"
  unfolding lit_0_1_def
  by (subst fl_binade_down [where k = 4]) (simp_all add: py_round_def)

lemma lit_0_15_value: "lit_0_15 = 5404319552844595 / 36028797018963968"
  unfolding lit_0_15_def
  by (subst fl_binade_down [where k = 3]) (simp_all add: py_round_def)

lemma lit_0_2_value: "lit_0_2 = 3602879701896397 / 18014398509481984"
  unfolding lit_0_2_def
  by (subst fl_binade_down [where k = 3]) (simp_all add: py_round_def)

lemma lit_0_4_value: "lit_0_4 = 3602879701896397 / 9007199254740992"
  unfolding lit_0_4_def
  by (subst fl_binade_down [where k = 2]) (simp_all add: py_round_def)

lemma lit_0_7_value: "lit_0_7 = 3152519739159347 / 4503599627370496"
  unfolding lit_0_7_def
  by (subst fl_binade_down [where k = 1]) (simp_all add: py_round_def)

lemma lit_0_8_value: "lit_0_8 = 3602879701896397 / 4503599627370496"
  unfolding lit_0_8_def
  by (subst fl_binade_down [where k = 1]) (simp_all add: py_round_def)

lemma lit_0_9_value: "lit_0_9 = 8106479329266893 / 9007199254740992"
  unfolding lit_0_9_def
  by (subst fl_binade_down [where k = 1]) (simp_all add: py_round_def)

lemma lit_0_95_value: "lit_0_95 = 4278419646001971 / 4503599627370496"
  unfolding lit_0_95_def
  by (subst fl_binade_down [where k = 1]) (simp_all add: py_round_def)

lemma double_0_7000000000000001_value: "double_0_7000000000000001 = 6305039478318695 / 9007199254740992"
  unfolding double_0_7000000000000001_def
  by (subst fl_binade_down [where k = 1]) (simp_all add: py_round_def)

lemma base_two: "fadd lit_0_8 lit_0_15 = 8556839292003943 / 9007199254740992"
  by (rule fadd_value [OF lit_0_8_value lit_0_15_value]) (subst fl_binade_down [where k = 1], simp_all add: py_round_def)

lemma base_mid: "fadd lit_0_8 lit_0_1 = 8106479329266893 / 9007199254740992"
  by (rule fadd_value [OF lit_0_8_value lit_0_1_value]) (subst fl_binade_down [where k = 1], simp_all add: py_round_def)

lemma base_many: "fsub lit_0_8 lit_0_1 = 6305039478318695 / 9007199254740992"
  by (rule fsub_value [OF lit_0_8_value lit_0_1_value]) (subst fl_binade_down [where k = 1], simp_all add: py_round_def)

lemma two_agree: "fadd (fadd lit_0_8 lit_0_15) lit_0_1 = 4728779608739021 / 4503599627370496"
  by (rule fadd_value [OF base_two lit_0_1_value]) (subst fl_binade_down [where k = 0], simp_all add: py_round_def)

lemma two_common: "fadd (fadd lit_0_8 lit_0_15) lit_0_05 = 1"
  by (rule fadd_value [OF base_two lit_0_05_value]) (subst fl_binade_down [where k = 0], simp_all add: py_round_def)

lemma two_hip: "fsub (fadd (fadd lit_0_8 lit_0_15) lit_0_05) lit_0_2 = 3602879701896397 / 4503599627370496"
  by (rule fsub_value [OF two_common lit_0_2_value]) (subst fl_binade_down [where k = 1], simp_all add: py_round_def)

lemma mid_agree: "fadd (fadd lit_0_8 lit_0_1) lit_0_1 = 1"
  by (rule fadd_value [OF base_mid lit_0_1_value]) (subst fl_binade_down [where k = 0], simp_all add: py_round_def)

lemma mid_common: "fadd (fadd lit_0_8 lit_0_1) lit_0_05 = 8556839292003943 / 9007199254740992"
  by (rule fadd_value [OF base_mid lit_0_05_value]) (subst fl_binade_down [where k = 1], simp_all add: py_round_def)

lemma four_gable: "fsub (fadd (fadd lit_0_8 lit_0_1) lit_0_05) lit_0_2 = 3 / 4"
  by (rule fsub_value [OF mid_common lit_0_2_value]) (subst fl_binade_down [where k = 1], simp_all add: py_round_def)

lemma many_agree: "fadd (fsub lit_0_8 lit_0_1) lit_0_1 = 3602879701896397 / 4503599627370496"
  by (rule fadd_value [OF base_many lit_0_1_value]) (subst fl_binade_down [where k = 1], simp_all add: py_round_def)

text \<open>The clamp on each sum that the function can reach.\<close>

lemma clamp_one_other: "max lit_0_4 (min lit_0_95 lit_0_8) = lit_0_8"
  by (simp add: lit_0_4_value lit_0_95_value lit_0_8_value)

lemma clamp_mid_other: "max lit_0_4 (min lit_0_95 (fadd lit_0_8 lit_0_1)) = lit_0_9"
  by (simp only: base_mid) (simp add: lit_0_4_value lit_0_95_value lit_0_9_value)

lemma clamp_two_other: "max lit_0_4 (min lit_0_95 (fadd lit_0_8 lit_0_15)) = lit_0_95"
  by (simp only: base_two) (simp add: lit_0_4_value lit_0_95_value)

lemma clamp_two_agree:
  "max lit_0_4 (min lit_0_95 (fadd (fadd lit_0_8 lit_0_15) lit_0_1)) = lit_0_95"
  by (simp only: two_agree) (simp add: lit_0_4_value lit_0_95_value)

lemma clamp_two_hip:
  "max lit_0_4 (min lit_0_95 (fsub (fadd (fadd lit_0_8 lit_0_15) lit_0_05) lit_0_2)) = lit_0_8"
  by (simp only: two_hip) (simp add: lit_0_4_value lit_0_95_value lit_0_8_value)

lemma clamp_mid_agree:
  "max lit_0_4 (min lit_0_95 (fadd (fadd lit_0_8 lit_0_1) lit_0_1)) = lit_0_95"
  by (simp only: mid_agree) (simp add: lit_0_4_value lit_0_95_value)

lemma clamp_mid_common:
  "max lit_0_4 (min lit_0_95 (fadd (fadd lit_0_8 lit_0_1) lit_0_05)) = lit_0_95"
  by (simp only: mid_common) (simp add: lit_0_4_value lit_0_95_value)

lemma clamp_four_gable:
  "max lit_0_4 (min lit_0_95 (fsub (fadd (fadd lit_0_8 lit_0_1) lit_0_05) lit_0_2)) = 3 / 4"
  by (simp only: four_gable) (simp add: lit_0_4_value lit_0_95_value)

lemma clamp_many_other:
  "max lit_0_4 (min lit_0_95 (fsub lit_0_8 lit_0_1)) = double_0_7000000000000001"
  by (simp only: base_many)
    (simp add: lit_0_4_value lit_0_95_value double_0_7000000000000001_value)

lemma clamp_many_agree:
  "max lit_0_4 (min lit_0_95 (fadd (fsub lit_0_8 lit_0_1) lit_0_1)) = lit_0_8"
  by (simp only: many_agree) (simp add: lit_0_4_value lit_0_95_value lit_0_8_value)

lemmas clamp_results =
  clamp_one_other clamp_mid_other clamp_two_other clamp_two_agree clamp_two_hip
  clamp_mid_agree clamp_mid_common clamp_four_gable clamp_many_other clamp_many_agree

text \<open>
  The geometry confidence for every segment count and AI type, as doubles. The lower
  clamp at 0.4 never applies: the smallest value is the double above 0.7.
\<close>

lemma simple_confidence_table:
  assumes "1 \<le> n"
  shows "calculate_simple_confidence n ai (simple_segment_based_classification n) =
    (if n = 1 then (if ai = ''shed'' \<or> ai = ''unknown'' then lit_0_9 else lit_0_8)
     else if n = 2 then (if ai = ''hip'' then lit_0_8 else lit_0_95)
     else if n = 3
       then (if ai = ''gable'' \<or> ai = ''hip'' \<or> ai = ''unknown'' then lit_0_95 else lit_0_9)
     else if n = 4
       then (if ai = ''gable'' then 3 / 4
             else if ai = ''hip'' \<or> ai = ''unknown'' then lit_0_95 else lit_0_9)
     else if n = 5
       then (if ai = ''gable'' \<or> ai = ''hip'' \<or> ai = ''unknown'' then lit_0_95 else lit_0_9)
     else (if ai = ''complex'' \<or> ai = ''unknown'' then lit_0_8
           else double_0_7000000000000001))"
proof -
  consider "n = 1" | "n = 2" | "n = 3" | "n = 4" | "n = 5" | "6 \<le> n"
    using assms by linarith
  then show ?thesis
  proof cases
    case 1
    then show ?thesis
      by (simp add: calculate_simple_confidence_def simple_segment_based_classification_def
          Let_def clamp_results)
  next
    case 2
    then show ?thesis
      by (simp add: calculate_simple_confidence_def simple_segment_based_classification_def
          Let_def clamp_results)
  next
    case 3
    then show ?thesis
      by (simp add: calculate_simple_confidence_def simple_segment_based_classification_def
          Let_def clamp_results)
  next
    case 4
    then show ?thesis
      by (simp add: calculate_simple_confidence_def simple_segment_based_classification_def
          Let_def clamp_results)
  next
    case 5
    then show ?thesis
      by (simp add: calculate_simple_confidence_def simple_segment_based_classification_def
          Let_def clamp_results)
  next
    case 6
    then show ?thesis
      by (simp add: calculate_simple_confidence_def simple_segment_based_classification_def
          Let_def clamp_results)
  qed
qed

text \<open>The arithmetic of three example confidences: 0.5, 0.7 and 0.9.\<close>

lemma half_plus_threshold: "fadd (1 / 2) lit_0_15 = 5854679515581645 / 9007199254740992"
  by (rule fadd_value [OF refl lit_0_15_value]) (subst fl_binade_down [where k = 1], simp_all add: py_round_def)

lemma half_times_pass: "fmul (1 / 2) lit_0_8 = 3602879701896397 / 9007199254740992"
  by (rule fmul_value [OF refl lit_0_8_value]) (subst fl_binade_down [where k = 2], simp_all add: py_round_def)

lemma tie_plus_threshold: "fadd lit_0_7 lit_0_15 = 7656119366529843 / 9007199254740992"
  by (rule fadd_value [OF lit_0_7_value lit_0_15_value]) (subst fl_binade_down [where k = 1], simp_all add: py_round_def)

lemma tie_sum: "fadd lit_0_7 double_0_7000000000000001 = 3152519739159347 / 2251799813685248"
  by (rule fadd_value [OF lit_0_7_value double_0_7000000000000001_value]) (subst fl_binade_down [where k = 0], simp_all add: py_round_def)

lemma tie_sum_halved: "fdiv (fadd lit_0_7 double_0_7000000000000001) 2 = 3152519739159347 / 4503599627370496"
  by (rule fdiv_value [OF tie_sum refl]) (subst fl_binade_down [where k = 1], simp_all add: py_round_def)

lemma high_plus_threshold: "fadd lit_0_9 lit_0_15 = 4728779608739021 / 4503599627370496"
  by (rule fadd_value [OF lit_0_9_value lit_0_15_value]) (subst fl_binade_down [where k = 0], simp_all add: py_round_def)

lemma high_scaled: "fmul lit_0_8 lit_0_9 = 6485183463413515 / 9007199254740992"
  by (rule fmul_value [OF lit_0_8_value lit_0_9_value]) (subst fl_binade_down [where k = 1], simp_all add: py_round_def)


lemma geometry_type_by_count:
  assumes "m \<noteq> 0"
  shows "simple_segment_based_classification (int m) =
    (if m = 1 then ''shed'' else if m \<le> 3 then ''gable'' else if m \<le> 5 then ''hip''
     else ''complex'')"
proof -
  consider "m = 1" | "m = 2" | "m = 3" | "m = 4" | "m = 5" | "6 \<le> m"
    using assms by linarith
  then show ?thesis
    by cases (simp_all add: simple_segment_based_classification_def)
qed

lemma confidence_values_in_range:
  "0.3 \<le> lit_0_8 \<and> lit_0_8 \<le> 0.95" "0.3 \<le> lit_0_9 \<and> lit_0_9 \<le> 0.95"
  "0.3 \<le> lit_0_95 \<and> lit_0_95 \<le> 0.95"
  "0.3 \<le> double_0_7000000000000001 \<and> double_0_7000000000000001 \<le> 0.95"
  by (simp_all add: lit_0_8_value lit_0_9_value lit_0_95_value
      double_0_7000000000000001_value)

text \<open>
  C6. With no segments the AI type passes through with its confidence times 0.8. With
  segments, the geometry type is shed for one segment, gable for two or three, hip for
  four or five and complex beyond; the geometry confidence is the value of the table
  below and lies within 0.3 and 0.95; and the result is the geometry type and confidence
  when the geometry confidence exceeds the AI confidence plus 0.15, the geometry type
  with the average of the two confidences when it merely exceeds the AI confidence, and
  otherwise the AI type with the larger of the AI confidence and 0.9 times the geometry
  confidence. Sums, products and the average are those of double arithmetic.
\<close>

theorem confidence_fusion:
  "(roofSegmentStats bd = [] \<longrightarrow>
      validate_roof_type_geometry ai bd conf = (ai, fmul conf lit_0_8))
   \<and> (roofSegmentStats bd \<noteq> [] \<longrightarrow>
       (let n = length (roofSegmentStats bd);
            gt = (if n = 1 then ''shed'' else if n \<le> 3 then ''gable''
                  else if n \<le> 5 then ''hip'' else ''complex'');
            gc = (if n = 1 then (if ai = ''shed'' \<or> ai = ''unknown'' then lit_0_9 else lit_0_8)
                  else if n = 2 then (if ai = ''hip'' then lit_0_8 else lit_0_95)
                  else if n = 3
                    then (if ai = ''gable'' \<or> ai = ''hip'' \<or> ai = ''unknown'' then lit_0_95
                          else lit_0_9)
                  else if n = 4
                    then (if ai = ''gable'' then 3 / 4
                          else if ai = ''hip'' \<or> ai = ''unknown'' then lit_0_95 else lit_0_9)
                  else if n = 5
                    then (if ai = ''gable'' \<or> ai = ''hip'' \<or> ai = ''unknown'' then lit_0_95
                          else lit_0_9)
                  else (if ai = ''complex'' \<or> ai = ''unknown'' then lit_0_8
                        else double_0_7000000000000001))
        in 0.3 \<le> gc \<and> gc \<le> 0.95
           \<and> validate_roof_type_geometry ai bd conf =
               (if fadd conf lit_0_15 < gc then (gt, gc)
                else if conf < gc then (gt, fdiv (fadd conf gc) 2)
                else (ai, max conf (fmul gc lit_0_9)))))"
proof (intro conjI impI)
  assume "roofSegmentStats bd = []"
  then show "validate_roof_type_geometry ai bd conf = (ai, fmul conf lit_0_8)"
    by (simp add: validate_roof_type_geometry_def)
next
  assume ne: "roofSegmentStats bd \<noteq> []"
  define m where "m = length (roofSegmentStats bd)"
  define gt where "gt = (if m = 1 then ''shed'' else if m \<le> 3 then ''gable''
      else if m \<le> 5 then ''hip'' else ''complex'')"
  define gc where "gc =
     (if m = 1 then (if ai = ''shed'' \<or> ai = ''unknown'' then lit_0_9 else lit_0_8)
      else if m = 2 then (if ai = ''hip'' then lit_0_8 else lit_0_95)
      else if m = 3
        then (if ai = ''gable'' \<or> ai = ''hip'' \<or> ai = ''unknown'' then lit_0_95 else lit_0_9)
      else if m = 4
        then (if ai = ''gable'' then 3 / 4
              else if ai = ''hip'' \<or> ai = ''unknown'' then lit_0_95 else lit_0_9)
      else if m = 5
        then (if ai = ''gable'' \<or> ai = ''hip'' \<or> ai = ''unknown'' then lit_0_95 else lit_0_9)
      else (if ai = ''complex'' \<or> ai = ''unknown'' then lit_0_8
            else double_0_7000000000000001))"
  from ne have m: "m \<noteq> 0"
    by (simp add: m_def)
  have type: "simple_segment_based_classification (int m) = gt"
    unfolding gt_def using m by (rule geometry_type_by_count)
  from m have "1 \<le> int m"
    by simp
  then have conf_eq: "calculate_simple_confidence (int m) ai gt = gc"
    unfolding type [symmetric] gc_def by (simp add: simple_confidence_table)
  have range: "0.3 \<le> gc \<and> gc \<le> 0.95"
    unfolding gc_def using confidence_values_in_range by simp
  have fusion: "validate_roof_type_geometry ai bd conf =
      (if fadd conf lit_0_15 < gc then (gt, gc)
       else if conf < gc then (gt, fdiv (fadd conf gc) 2)
       else (ai, max conf (fmul gc lit_0_9)))"
    using ne by (simp add: validate_roof_type_geometry_def Let_def m_def [symmetric] type conf_eq)
  from range fusion
  show "let n = length (roofSegmentStats bd);
            gt = (if n = 1 then ''shed'' else if n \<le> 3 then ''gable''
                  else if n \<le> 5 then ''hip'' else ''complex'');
            gc = (if n = 1 then (if ai = ''shed'' \<or> ai = ''unknown'' then lit_0_9 else lit_0_8)
                  else if n = 2 then (if ai = ''hip'' then lit_0_8 else lit_0_95)
                  else if n = 3
                    then (if ai = ''gable'' \<or> ai = ''hip'' \<or> ai = ''unknown'' then lit_0_95
                          else lit_0_9)
                  else if n = 4
                    then (if ai = ''gable'' then 3 / 4
                          else if ai = ''hip'' \<or> ai = ''unknown'' then lit_0_95 else lit_0_9)
                  else if n = 5
                    then (if ai = ''gable'' \<or> ai = ''hip'' \<or> ai = ''unknown'' then lit_0_95
                          else lit_0_9)
                  else (if ai = ''complex'' \<or> ai = ''unknown'' then lit_0_8
                        else double_0_7000000000000001))
        in 0.3 \<le> gc \<and> gc \<le> 0.95
           \<and> validate_roof_type_geometry ai bd conf =
               (if fadd conf lit_0_15 < gc then (gt, gc)
                else if conf < gc then (gt, fdiv (fadd conf gc) 2)
                else (ai, max conf (fmul gc lit_0_9)))"
    unfolding Let_def m_def [symmetric] gt_def [symmetric] gc_def [symmetric]
    by blast
qed


text \<open>
  Six segments called hip with confidence 0.7: the geometry confidence is the double
  above 0.7, so the geometry type complex is taken, with the average 0.7.
\<close>

lemma tie_not_above: "\<not> fadd lit_0_7 lit_0_15 < double_0_7000000000000001"
  by (simp only: tie_plus_threshold) (simp add: double_0_7000000000000001_value)

lemma tie_below: "lit_0_7 < double_0_7000000000000001"
  by (simp add: lit_0_7_value double_0_7000000000000001_value)

lemma tie_average: "fdiv (fadd lit_0_7 double_0_7000000000000001) 2 = lit_0_7"
  by (simp only: tie_sum_halved) (simp add: lit_0_7_value)

lemma half_comparison: "fadd (1 / 2) lit_0_15 < lit_0_8"
  by (simp only: half_plus_threshold) (simp add: lit_0_8_value)

lemma half_pass: "fmul (1 / 2) lit_0_8 = lit_0_4"
  by (simp only: half_times_pass) (simp add: lit_0_4_value)

lemma high_not_above: "\<not> fadd lit_0_9 lit_0_15 < lit_0_8"
  by (simp only: high_plus_threshold) (simp add: lit_0_8_value)

lemma high_not_below: "\<not> lit_0_9 < lit_0_8"
  by (simp add: lit_0_8_value lit_0_9_value)

lemma high_max: "max lit_0_9 (fmul lit_0_8 lit_0_9) = lit_0_9"
  by (simp only: high_scaled) (simp add: lit_0_9_value)

theorem confidence_fusion_witness:
  "validate_roof_type_geometry ''hip''
     \<lparr>roofSegmentStats = [], wholeRoofGroundAreaMeters2 = None, center = None\<rparr> (1 / 2)
     = (''hip'', lit_0_4)
   \<and> validate_roof_type_geometry ''hip''
     \<lparr>roofSegmentStats = [flat_segment 0 4, flat_segment 180 4],
      wholeRoofGroundAreaMeters2 = None, center = None\<rparr> (1 / 2)
     = (''gable'', lit_0_8)
   \<and> validate_roof_type_geometry ''hip''
     \<lparr>roofSegmentStats = [flat_segment 0 4, flat_segment 60 4, flat_segment 120 4,
        flat_segment 180 4, flat_segment 240 4, flat_segment 300 4],
      wholeRoofGroundAreaMeters2 = None, center = None\<rparr> lit_0_7
     = (''complex'', lit_0_7)
   \<and> validate_roof_type_geometry ''hip''
     \<lparr>roofSegmentStats = [flat_segment 0 4, flat_segment 180 4],
      wholeRoofGroundAreaMeters2 = None, center = None\<rparr> lit_0_9
     = (''hip'', lit_0_9)"
  using
    confidence_fusion [of "\<lparr>roofSegmentStats = [], wholeRoofGroundAreaMeters2 = None,
      center = None\<rparr>" "''hip''" "1 / 2"]
    confidence_fusion [of "\<lparr>roofSegmentStats = [flat_segment 0 4, flat_segment 180 4],
      wholeRoofGroundAreaMeters2 = None, center = None\<rparr>" "''hip''" "1 / 2"]
    confidence_fusion [of "\<lparr>roofSegmentStats = [flat_segment 0 4, flat_segment 60 4,
      flat_segment 120 4, flat_segment 180 4, flat_segment 240 4, flat_segment 300 4],
      wholeRoofGroundAreaMeters2 = None, center = None\<rparr>" "''hip''" lit_0_7]
    confidence_fusion [of "\<lparr>roofSegmentStats = [flat_segment 0 4, flat_segment 180 4],
      wholeRoofGroundAreaMeters2 = None, center = None\<rparr>" "''hip''" lit_0_9]
  by (simp add: Let_def tie_not_above tie_below tie_average half_comparison half_pass
      high_not_above high_not_below high_max)

section \<open>Segment depth\<close>

lemmas process_defs =
  process_roof_segments_improved_def calculate_meters_per_degree_def process_segment_body_def
  bounding_box_eave_def perimeter_share_eave_def
  calculate_eave_length_from_area_def py_sqrt_def py_div_def get_or_def

text \<open>
  C8 at two inputs. The source assigns \<^verbatim>\<open>depth_m\<close> under \<^verbatim>\<open>if eave_m > 0\<close> only, so
  the \<^verbatim>\<open>else 0\<close> of the assignment is never reached. A first segment whose eave
  length is 0 reads an unbound variable, the exception is caught and the segment is
  dropped. A later segment whose eave length is 0 gets the depth of the segment before
  it: here 2 instead of 0.
\<close>

theorem depth_unset_when_eave_zero:
  "process_roof_segments_improved [flat_segment 0 0] None 0 = []
   \<and> process_roof_segments_improved [flat_segment 0 4, flat_segment 180 0] None 0 =
     [\<lparr>area_m2 = 4, pitch_degrees = 0, azimuth = 0, eave_m = 2, depth_m = 2, pitch = 0,
        bbox = (None, None)\<rparr>,
      \<lparr>area_m2 = 0, pitch_degrees = 0, azimuth = 180, eave_m = 0, depth_m = 2, pitch = 0,
        bbox = (None, None)\<rparr>]"
  by (simp add: process_defs)

text \<open>
  What does hold: a processed segment with a positive eave length has its area over its
  eave length as depth, and the loop returns for every list, with at most one record
  per raw segment.
\<close>

lemma finish_depth:
  assumes "(case (if 0 < E then Some (ga / E) else dv) of
              None \<Rightarrow> Inl UnboundLocalError
            | Some d \<Rightarrow>
                Inr (\<lparr>area_m2 = ga, pitch_degrees = pd, azimuth = az, eave_m = E, depth_m = d,
                      pitch = pd, bbox = bb\<rparr>, (if 0 < E then Some (ga / E) else dv)))
           = Inr (ps, dv')"
  shows "(0 < eave_m ps \<longrightarrow> depth_m ps = area_m2 ps / eave_m ps)
         \<and> (\<not> 0 < eave_m ps \<longrightarrow> dv = Some (depth_m ps))"
  using assms by (cases "0 < E") (auto split: option.splits)

lemma process_segment_body_depth:
  assumes "process_segment_body rs p mlon mlat dv seg = Inr (ps, dv')"
  shows "(0 < eave_m ps \<longrightarrow> depth_m ps = area_m2 ps / eave_m ps)
         \<and> (\<not> 0 < eave_m ps \<longrightarrow> dv = Some (depth_m ps))"
proof (cases "bounding_box_eave seg (get_or (pitchDegrees seg) 0) mlon mlat")
  case (Inl e)
  with assms show ?thesis
    by (simp add: process_segment_body_def Let_def)
next
  case e1: (Inr eave1)
  show ?thesis
  proof (cases "if eave1 = 0 \<and> 0 < get_or (groundAreaMeters2 seg) 0
      then calculate_eave_length_from_area (get_or (groundAreaMeters2 seg) 0)
             (get_or (pitchDegrees seg) 0)
      else Inr eave1")
    case (Inl e)
    with assms e1 show ?thesis
      by (simp add: process_segment_body_def Let_def)
  next
    case e2: (Inr eave2)
    from assms show ?thesis
      unfolding process_segment_body_def Let_def e1 sum.case e2
      by (rule finish_depth)
  qed
qed

lemma process_loop_all:
  assumes "\<forall>x\<in>set acc. P x"
    and "\<And>dv seg ps dv'. process_segment_body rs p mlon mlat dv seg = Inr (ps, dv') \<Longrightarrow> P ps"
  shows "\<forall>x\<in>set (process_loop rs p mlon mlat dv acc segs). P x"
  using assms(1)
proof (induction segs arbitrary: dv acc)
  case Nil
  then show ?case by simp
next
  case (Cons seg segs)
  show ?case
  proof (cases "process_segment_body rs p mlon mlat dv seg")
    case (Inl e)
    with Cons show ?thesis by simp
  next
    case (Inr r)
    obtain ps dv' where r: "r = (ps, dv')" by (cases r)
    with Inr have "P ps" using assms(2) by blast
    with Cons.prems have "\<forall>x\<in>set (acc @ [ps]). P x" by simp
    then have "\<forall>x\<in>set (process_loop rs p mlon mlat dv' (acc @ [ps]) segs). P x"
      by (rule Cons.IH)
    with Inr r show ?thesis by simp
  qed
qed

lemma processed_depth_of_positive_eave:
  assumes "x \<in> set (process_roof_segments_improved segs c p)" and "0 < eave_m x"
  shows "depth_m x = area_m2 x / eave_m x"
proof -
  obtain mlon mlat where m: "calculate_meters_per_degree
      (case c of None \<Rightarrow> 40 | Some c \<Rightarrow> get_or (center_latitude c) 40) = (mlon, mlat)"
    by (cases "calculate_meters_per_degree
      (case c of None \<Rightarrow> 40 | Some c \<Rightarrow> get_or (center_latitude c) 40)")
  have "\<forall>x\<in>set (process_loop segs p mlon mlat None [] segs).
      0 < eave_m x \<longrightarrow> depth_m x = area_m2 x / eave_m x"
    by (rule process_loop_all) (simp, use process_segment_body_depth in blast)
  with assms show ?thesis
    by (simp add: process_roof_segments_improved_def Let_def m)
qed

lemma process_loop_length:
  "length (process_loop rs p mlon mlat dv acc segs) \<le> length acc + length segs"
proof (induction segs arbitrary: dv acc)
  case Nil
  then show ?case by simp
next
  case (Cons seg segs)
  show ?case
  proof (cases "process_segment_body rs p mlon mlat dv seg")
    case (Inl e)
    with Cons [of dv acc] show ?thesis by simp
  next
    case (Inr r)
    obtain ps dv' where r: "r = (ps, dv')" by (cases r)
    with Inr Cons [of dv' "acc @ [ps]"] show ?thesis by simp
  qed
qed

section \<open>The estimate as a whole\<close>

text \<open>
  The fields of a returned estimate in terms of the stages, and the estimate from the
  results of the stages.
\<close>

lemma complexity_factor_bounds:
  "1 \<le> snd (calculate_eave_length_improved rt segs p fp)
   \<and> snd (calculate_eave_length_improved rt segs p fp) \<le> 1.4"
  by (simp add: calculate_eave_length_improved_def Let_def)

lemma estimate_gutter_feet_Inr:
  assumes "estimate_gutter_feet bd rc = Inr g"
  shows "\<exists>p a rt segs e.
           calculate_building_perimeter (roofSegmentStats bd) (center bd)
             (wholeRoofGroundAreaMeters2 bd) = Inr (p, a)
         \<and> rt = validate_roof_type (get_or (rc_roof_type rc) ''unknown'') (roofSegmentStats bd)
                  (center bd)
         \<and> segs = process_roof_segments_improved (roofSegmentStats bd) (center bd) p
         \<and> e = fst (calculate_eave_length_improved rt segs p a)
         \<and> perimeter_m g = p \<and> building_footprint_m2 g = a \<and> roof_type g = rt
         \<and> confidence g = get_or (rc_confidence rc) 0
         \<and> complexity_factor g = snd (calculate_eave_length_improved rt segs p a)
         \<and> waste_factor g =
               calculate_dynamic_waste_factor rt (complexity_factor g) (length segs)
         \<and> total_gutter_ft g = fst (final_overestimation_guard p e (waste_factor g))
         \<and> eave_length_ft g =
               py_round_ndigits (snd (final_overestimation_guard p e (waste_factor g))) 2
         \<and> downspouts_estimate g = estimate_downspouts_improved rt e segs
         \<and> warnings g = generate_warnings_improved rt (total_gutter_ft g) e segs
               (wholeRoofGroundAreaMeters2 bd) p
         \<and> estimated_range g = estimated_range_of (total_gutter_ft g) (complexity_factor g)"
proof (cases "calculate_building_perimeter (roofSegmentStats bd) (center bd)
    (wholeRoofGroundAreaMeters2 bd)")
  case (Inl e)
  with assms show ?thesis
    by (simp add: estimate_gutter_feet_def Let_def)
next
  case (Inr pa)
  obtain p a where pa: "pa = (p, a)" by (cases pa)
  from assms Inr pa show ?thesis
    by (auto simp: estimate_gutter_feet_def Let_def case_prod_beta)
qed

lemma estimate_gutter_feet_stages:
  assumes "calculate_building_perimeter rs c wa = Inr (p, a)"
    and "validate_roof_type (get_or t ''unknown'') rs c = rt"
    and "process_roof_segments_improved rs c p = segs"
    and "calculate_eave_length_improved rt segs p a = (e, cf)"
    and "calculate_dynamic_waste_factor rt cf (length segs) = w"
    and "final_overestimation_guard p e w = (tot, eft)"
  shows "estimate_gutter_feet
      \<lparr>roofSegmentStats = rs, wholeRoofGroundAreaMeters2 = wa, center = c\<rparr>
      \<lparr>rc_roof_type = t, rc_confidence = cnf\<rparr>
    = Inr \<lparr>eave_length_ft = py_round_ndigits eft 2, total_gutter_ft = tot,
           waste_factor = w, roof_type = rt, confidence = get_or cnf 0,
           warnings = generate_warnings_improved rt tot e segs wa p,
           estimated_range = estimated_range_of tot cf,
           downspouts_estimate = estimate_downspouts_improved rt e segs,
           complexity_factor = cf, perimeter_m = p, building_footprint_m2 = a\<rparr>"
  using assms by (simp add: estimate_gutter_feet_def Let_def)

lemma estimate_gutter_feet_returns:
  "(\<exists>g. estimate_gutter_feet bd rc = Inr g)
     \<longleftrightarrow> \<not> (\<exists>a. wholeRoofGroundAreaMeters2 bd = Some a \<and> a < 0)"
proof -
  have "(\<exists>g. estimate_gutter_feet bd rc = Inr g) \<longleftrightarrow>
      (\<exists>p a. calculate_building_perimeter (roofSegmentStats bd) (center bd)
         (wholeRoofGroundAreaMeters2 bd) = Inr (p, a))"
    by (auto simp: estimate_gutter_feet_def Let_def case_prod_beta split: sum.splits)
  then show ?thesis
    by (simp add: perimeter_returns)
qed

text \<open>
  The bound of the final guard on the estimate returned, for a positive perimeter.
\<close>

lemma estimate_waste_factor_bounds:
  assumes "estimate_gutter_feet bd rc = Inr g"
  shows "0.01 \<le> waste_factor g \<and> waste_factor g \<le> 0.06"
  using estimate_gutter_feet_Inr [OF assms]
  by (elim exE conjE) (simp only: waste_factor_bounds)

lemma estimate_total_guard:
  assumes "estimate_gutter_feet bd rc = Inr g"
  shows "\<exists>e. total_gutter_ft g = fst (final_overestimation_guard (perimeter_m g) e (waste_factor g))"
  using estimate_gutter_feet_Inr [OF assms]
  by (elim exE conjE) (simp only: exI)

lemma estimate_total_within_bound:
  assumes "estimate_gutter_feet bd rc = Inr g" and "0 < perimeter_m g"
  shows "total_gutter_ft g \<le> \<lceil>perimeter_m g * 3.28084 * 1.3 * (1 + waste_factor g)\<rceil>"
proof -
  from assms(1) obtain e where
    t: "total_gutter_ft g = fst (final_overestimation_guard (perimeter_m g) e (waste_factor g))"
    using estimate_total_guard by blast
  have "0 \<le> waste_factor g"
    using estimate_waste_factor_bounds [OF assms(1)] by simp
  with assms(2) show ?thesis
    unfolding t by (rule guard_total_bound)
qed

text \<open>Two inputs evaluated stage by stage: no data at all, and a two-segment roof.\<close>

lemmas perimeter_defs =
  calculate_building_perimeter_def perimeter_methods_def whole_roof_method_def
  bounding_box_method_def all_lats_of_def all_lons_of_def calculate_meters_per_degree_def

lemma estimate_without_data:
  "estimate_gutter_feet
     \<lparr>roofSegmentStats = [], wholeRoofGroundAreaMeters2 = None, center = None\<rparr>
     \<lparr>rc_roof_type = Some ''gable'', rc_confidence = Some 0.9\<rparr>
   = Inr \<lparr>eave_length_ft = 0, total_gutter_ft = 0, waste_factor = 0.02,
          roof_type = ''gable'', confidence = 0.9,
          warnings = [FewSegments 0 ''gable'', SmallRoof 0],
          estimated_range = \<lparr>range_min = 1, range_max = 0, range_target = 0\<rparr>,
          downspouts_estimate = 2, complexity_factor = 1,
          perimeter_m = 0, building_footprint_m2 = 0\<rparr>"
proof -
  have e1: "calculate_building_perimeter [] None None = Inr (0, 0)"
    by (simp add: perimeter_defs)
  have e2: "process_roof_segments_improved [] None 0 = []"
    by (simp add: process_defs)
  have e3: "validate_roof_type (get_or (Some ''gable'') ''unknown'') [] None = ''gable''"
    by (simp add: validate_roof_type_def get_or_def)
  have e4: "calculate_eave_length_improved ''gable'' [] 0 0 = (0, 1)"
    by (simp add: calculate_eave_length_improved_def)
  have e5: "calculate_dynamic_waste_factor ''gable'' 1 (length []) = 0.02"
    by (simp add: calculate_dynamic_waste_factor_def type_waste_def get_or_def)
  have e6: "final_overestimation_guard 0 0 0.02 = (0, 0)"
    by (simp add: final_overestimation_guard_def)
  have e7: "estimate_downspouts_improved ''gable'' 0 [] = 2"
    by (simp add: estimate_downspouts_improved_def py_int_def)
  have e8: "generate_warnings_improved ''gable'' 0 0 [] None 0 =
      [FewSegments 0 ''gable'', SmallRoof 0]"
    by (simp add: generate_warnings_improved_def)
  have e9: "estimated_range_of 0 1 = \<lparr>range_min = 1, range_max = 0, range_target = 0\<rparr>"
    by (simp add: estimated_range_of_def py_int_def)
  have e10: "py_round_ndigits 0 2 = 0"
    by (simp add: py_round_ndigits_def py_round_def)
  have e11: "get_or (Some (0.9::real)) 0 = 0.9"
    by (simp add: get_or_def)
  show ?thesis
    unfolding estimate_gutter_feet_stages [OF e1 e3 e2 e4 e5 e6]
    by (simp only: e7 e8 e9 e10 e11)
qed

lemma estimate_two_segments:
  "estimate_gutter_feet
     \<lparr>roofSegmentStats = [flat_segment 0 4, flat_segment 180 4],
      wholeRoofGroundAreaMeters2 = None,
      center = Some \<lparr>center_latitude = Some 40\<rparr>\<rparr>
     \<lparr>rc_roof_type = Some ''hip'', rc_confidence = Some 0.7\<rparr>
   = Inr \<lparr>eave_length_ft = 13.12, total_gutter_ft = 14, waste_factor = 0.02,
          roof_type = ''gable'', confidence = 0.7,
          warnings = [SmallRoof 4],
          estimated_range = \<lparr>range_min = 12, range_max = 15, range_target = 14\<rparr>,
          downspouts_estimate = 2, complexity_factor = 1,
          perimeter_m = 0, building_footprint_m2 = 0\<rparr>"
proof -
  let ?c = "Some \<lparr>center_latitude = Some 40\<rparr>"
  let ?segs = "[flat_segment 0 4, flat_segment 180 4]"
  let ?ps = "[\<lparr>area_m2 = 4, pitch_degrees = 0, azimuth = 0, eave_m = 2, depth_m = 2, pitch = 0,
        bbox = (None, None)\<rparr>,
      \<lparr>area_m2 = 4, pitch_degrees = 0, azimuth = 180, eave_m = 2, depth_m = 2, pitch = 0,
        bbox = (None, None)\<rparr>]"
  have e1: "calculate_building_perimeter ?segs ?c None = Inr (0, 0)"
    by (simp add: perimeter_defs)
  have e2: "process_roof_segments_improved ?segs ?c 0 = ?ps"
    by (simp add: process_defs)
  have e3: "validate_roof_type (get_or (Some ''hip'') ''unknown'') ?segs ?c = ''gable''"
    by (simp add: validate_roof_type_def get_or_def)
  have e4: "calculate_eave_length_improved ''gable'' ?ps 0 0 = (4, 1)"
    by (simp add: calculate_eave_length_improved_def)
  have e5: "calculate_dynamic_waste_factor ''gable'' 1 (length ?ps) = 0.02"
    by (simp add: calculate_dynamic_waste_factor_def type_waste_def get_or_def)
  have e6: "final_overestimation_guard 0 4 0.02 = (14, 13.12336)"
    by (simp add: final_overestimation_guard_def)
  have e7: "estimate_downspouts_improved ''gable'' 4 ?ps = 2"
    by (simp add: estimate_downspouts_improved_def py_int_def)
  have e8: "generate_warnings_improved ''gable'' 14 4 ?ps None 0 = [SmallRoof 4]"
    by (simp add: generate_warnings_improved_def)
  have e9: "estimated_range_of 14 1 = \<lparr>range_min = 12, range_max = 15, range_target = 14\<rparr>"
    by (simp add: estimated_range_of_def py_int_def)
  have e10: "py_round_ndigits 13.12336 2 = 13.12"
    by (simp add: py_round_ndigits_def py_round_def)
  have e11: "get_or (Some (0.7::real)) 0 = 0.7"
    by (simp add: get_or_def)
  show ?thesis
    unfolding estimate_gutter_feet_stages [OF e1 e3 e2 e4 e5 e6]
    by (simp only: e7 e8 e9 e10 e11)
qed

section \<open>The estimated range\<close>

lemma estimated_range_ordered:
  assumes t: "1 \<le> t" and rp: "0 \<le> 0.08 + (cf - 1) * 0.03" "0.08 + (cf - 1) * 0.03 \<le> (1::real)"
  shows "range_min (estimated_range_of t cf) = max 1 \<lfloor>of_int t * (1 - (0.08 + (cf - 1) * 0.03))\<rfloor>
       \<and> range_max (estimated_range_of t cf) = \<lfloor>of_int t * (1 + (0.08 + (cf - 1) * 0.03))\<rfloor>
       \<and> range_target (estimated_range_of t cf) = t
       \<and> range_min (estimated_range_of t cf) \<le> range_target (estimated_range_of t cf)
       \<and> range_target (estimated_range_of t cf) \<le> range_max (estimated_range_of t cf)"
proof -
  define rp where "rp = 0.08 + (cf - 1) * 0.03"
  have rp0: "0 \<le> rp" and rp1: "rp \<le> 1"
    using rp by (simp_all add: rp_def)
  have tpos: "(0::real) \<le> of_int t"
    using t by simp
  have lo: "0 \<le> of_int t * (1 - rp)"
    using tpos rp1 by simp
  have hi: "0 \<le> of_int t * (1 + rp)"
    using tpos rp0 by simp
  have shrink: "of_int t * (1 - rp) \<le> of_int t"
    using tpos rp0 by (simp add: mult_left_le)
  have grow: "of_int t \<le> of_int t * (1 + rp)"
    using tpos rp0 by (simp add: algebra_simps)
  have fl: "\<lfloor>of_int t * (1 - rp)\<rfloor> \<le> t"
    using shrink by (simp add: floor_le_iff)
  have ce: "t \<le> \<lfloor>of_int t * (1 + rp)\<rfloor>"
    using grow by (simp add: le_floor_iff)
  have mn: "range_min (estimated_range_of t cf) = max 1 \<lfloor>of_int t * (1 - rp)\<rfloor>"
    using lo by (simp add: estimated_range_of_def Let_def py_int_def rp_def)
  have mx: "range_max (estimated_range_of t cf) = \<lfloor>of_int t * (1 + rp)\<rfloor>"
    using hi by (simp add: estimated_range_of_def Let_def py_int_def rp_def)
  have tg: "range_target (estimated_range_of t cf) = t"
    by (simp add: estimated_range_of_def Let_def)
  from mn mx tg fl ce t show ?thesis
    unfolding rp_def by simp
qed

text \<open>
  With no data the total is 0 and the lower end of the range, which is never below 1,
  lies above the target.
\<close>

theorem range_inverted_at_zero:
  "(case estimate_gutter_feet
      \<lparr>roofSegmentStats = [], wholeRoofGroundAreaMeters2 = None, center = None\<rparr>
      \<lparr>rc_roof_type = Some ''gable'', rc_confidence = Some 0.9\<rparr> of
      Inl e \<Rightarrow> False
    | Inr g \<Rightarrow> total_gutter_ft g = 0
        \<and> \<not> range_min (estimated_range g) \<le> range_target (estimated_range g))"
  by (simp add: estimate_without_data)

text \<open>
  C5, as the code has it. For every input on which the pipeline returns a total of at
  least 1 foot: with the range percentage 0.08 plus 0.03 times the complexity factor
  minus one, the lower end is the larger of 1 and the floor of the total times one
  minus the percentage, the upper end is the floor of the total times one plus the
  percentage, the target is the total, and lower end, target and upper end are in
  order.
\<close>

theorem estimated_range_around_target:
  assumes "estimate_gutter_feet bd rc = Inr g" and "1 \<le> total_gutter_ft g"
  shows "let t = total_gutter_ft g;
             rp = 0.08 + (complexity_factor g - 1) * 0.03;
             r = estimated_range g
         in range_min r = max 1 \<lfloor>of_int t * (1 - rp)\<rfloor>
            \<and> range_max r = \<lfloor>of_int t * (1 + rp)\<rfloor>
            \<and> range_target r = t
            \<and> range_min r \<le> range_target r \<and> range_target r \<le> range_max r"
proof -
  from assms(1) obtain rt segs p a where
    cf: "complexity_factor g = snd (calculate_eave_length_improved rt segs p a)" and
    r: "estimated_range g = estimated_range_of (total_gutter_ft g) (complexity_factor g)"
    using estimate_gutter_feet_Inr [of bd rc g] by blast
  have b: "1 \<le> complexity_factor g \<and> complexity_factor g \<le> 1.4"
    unfolding cf by (rule complexity_factor_bounds)
  have rp0: "0 \<le> 0.08 + (complexity_factor g - 1) * 0.03"
    using b by simp
  have rp1: "0.08 + (complexity_factor g - 1) * 0.03 \<le> 1"
    using b by (simp add: field_simps)
  show ?thesis
    unfolding Let_def r by (rule estimated_range_ordered [OF assms(2) rp0 rp1])
qed

theorem estimated_range_around_target_witness:
  "\<exists>g. estimate_gutter_feet
      \<lparr>roofSegmentStats = [flat_segment 0 4, flat_segment 180 4],
       wholeRoofGroundAreaMeters2 = None,
       center = Some \<lparr>center_latitude = Some 40\<rparr>\<rparr>
      \<lparr>rc_roof_type = Some ''hip'', rc_confidence = Some 0.7\<rparr> = Inr g
    \<and> 1 \<le> total_gutter_ft g
    \<and> range_min (estimated_range g) = 12 \<and> range_target (estimated_range g) = 14
    \<and> range_max (estimated_range g) = 15"
proof -
  let ?g = "\<lparr>eave_length_ft = 13.12, total_gutter_ft = 14, waste_factor = 0.02,
          roof_type = ''gable'', confidence = 0.7,
          warnings = [SmallRoof 4],
          estimated_range = \<lparr>range_min = 12, range_max = 15, range_target = 14\<rparr>,
          downspouts_estimate = 2, complexity_factor = 1,
          perimeter_m = 0, building_footprint_m2 = 0\<rparr>"
  have pos: "1 \<le> total_gutter_ft ?g"
    by simp
  from estimated_range_around_target [OF estimate_two_segments pos] estimate_two_segments
  show ?thesis
    by (simp add: Let_def)
qed

section \<open>The estimate without data\<close>

text \<open>
  C9 at its input: no segments and no whole-roof area, any centre, any classification.
  The pipeline returns; perimeter, eave length and total are 0 and the small-roof warning
  is present; the estimated range is lower end 1, upper end 0, target 0, not three
  zeros.
\<close>

theorem estimate_on_empty_input:
  "\<exists>g. estimate_gutter_feet
      \<lparr>roofSegmentStats = [], wholeRoofGroundAreaMeters2 = None, center = c\<rparr>
      \<lparr>rc_roof_type = t, rc_confidence = cnf\<rparr> = Inr g
    \<and> perimeter_m g = 0 \<and> eave_length_ft g = 0 \<and> total_gutter_ft g = 0
    \<and> estimated_range g = \<lparr>range_min = 1, range_max = 0, range_target = 0\<rparr>
    \<and> SmallRoof 0 \<in> set (warnings g)"
proof -
  define rt where "rt = validate_roof_type (get_or t ''unknown'') [] c"
  define w where "w = calculate_dynamic_waste_factor rt 1 (length ([] :: processed_segment list))"
  have e1: "calculate_building_perimeter [] c None = Inr (0, 0)"
    by (simp add: perimeter_defs split: prod.splits)
  have e2: "process_roof_segments_improved [] c 0 = []"
    by (simp add: process_roof_segments_improved_def split: prod.splits)
  have e3: "validate_roof_type (get_or t ''unknown'') [] c = rt"
    by (simp add: rt_def)
  have e4: "calculate_eave_length_improved rt [] 0 0 = (0, 1)"
    by (simp add: calculate_eave_length_improved_def)
  have e5: "calculate_dynamic_waste_factor rt 1 (length ([] :: processed_segment list)) = w"
    by (simp add: w_def)
  have e6: "final_overestimation_guard 0 0 w = (0, 0)"
    by (simp add: final_overestimation_guard_def)
  have r: "estimated_range_of 0 1 = \<lparr>range_min = 1, range_max = 0, range_target = 0\<rparr>"
    by (simp add: estimated_range_of_def py_int_def)
  have z: "py_round_ndigits 0 2 = 0"
    by (simp add: py_round_ndigits_def py_round_def)
  have s: "SmallRoof 0 \<in> set (generate_warnings_improved rt 0 0 [] None 0)"
    by (simp add: generate_warnings_improved_def)
  show ?thesis
    unfolding estimate_gutter_feet_stages [OF e1 e3 e2 e4 e5 e6]
    using r z s by simp
qed

section \<open>The reported confidence\<close>

text \<open>
  C10. The confidence of a returned estimate is the confidence read from the
  classification, 0 when absent; the witness is a roof whose type the validation changes
  from hip to gable while the confidence stays 0.7.
\<close>

theorem confidence_passes_through:
  assumes "estimate_gutter_feet bd rc = Inr g"
  shows "confidence g = (case rc_confidence rc of None \<Rightarrow> 0 | Some x \<Rightarrow> x)"
  using estimate_gutter_feet_Inr [OF assms] by (auto simp: get_or_def)

theorem confidence_passes_through_witness:
  "\<exists>g. estimate_gutter_feet
      \<lparr>roofSegmentStats = [flat_segment 0 4, flat_segment 180 4],
       wholeRoofGroundAreaMeters2 = None,
       center = Some \<lparr>center_latitude = Some 40\<rparr>\<rparr>
      \<lparr>rc_roof_type = Some ''hip'', rc_confidence = Some 0.7\<rparr> = Inr g
    \<and> roof_type g = ''gable'' \<and> confidence g = 0.7"
  using confidence_passes_through [OF estimate_two_segments] estimate_two_segments
  by simp

end
